theory Spec2Isabelle
  imports Complex_Main "HOL-Library.AList" "HOL-Library.Sublist"
begin

section \<open>JavaScript values used by the adapters\<close>

text \<open>
  Strings are byte strings (UTF-8): an ASCII literal of the source is the same literal
  here, and the Chinese fragments of the source's messages are the named constants
  \<open>zh_...\<close> below, holding their UTF-8 bytes. \<open>trim\<close> and \<open>toLowerCase\<close> act on the ASCII
  white space and the ASCII letters; site-type keys and URLs are ASCII text.
  Numbers read from JSON are exact rationals (no rounding to doubles); a number that a
  JavaScript parser produces (\<open>parseFloat\<close>, \<open>Number\<close>) is a \<open>jsnum\<close>, which adds NaN
  and the two infinities.
\<close>

definition isWhiteSpace :: "char \<Rightarrow> bool" where
  "isWhiteSpace c = (c \<in> set [CHR 0x09, CHR 0x0A, CHR 0x0B, CHR 0x0C, CHR 0x0D, CHR 0x20])"

definition trimStart :: "string \<Rightarrow> string" where
  "trimStart s = dropWhile isWhiteSpace s"

definition trimEnd :: "string \<Rightarrow> string" where
  "trimEnd s = rev (dropWhile isWhiteSpace (rev s))"

definition trim :: "string \<Rightarrow> string" where
  "trim s = trimEnd (trimStart s)"

definition toLowerCase_char :: "char \<Rightarrow> char" where
  "toLowerCase_char c =
     (case map_of (zip ''ABCDEFGHIJKLMNOPQRSTUVWXYZ'' ''abcdefghijklmnopqrstuvwxyz'') c of
        Some l \<Rightarrow> l
      | None \<Rightarrow> c)"

definition toLowerCase :: "string \<Rightarrow> string" where
  "toLowerCase s = map toLowerCase_char s"

text \<open>\<open>s.includes(t)\<close>: \<open>t\<close> occurs in \<open>s\<close> as a contiguous run.\<close>

fun str_includes :: "string \<Rightarrow> string \<Rightarrow> bool" where
  "str_includes [] t = (t = [])"
| "str_includes (c # s) t = (prefix t (c # s) \<or> str_includes s t)"

text \<open>\<open>xs.join(sep)\<close>.\<close>

fun join :: "string \<Rightarrow> string list \<Rightarrow> string" where
  "join sep [] = []"
| "join sep [x] = x"
| "join sep (x # y # ys) = x @ sep @ join sep (y # ys)"

definition quote :: string where
  "quote = [CHR 0x27]"

datatype jsnum = NaN | PosInf | NegInf | Num rat



fun isFinite :: "jsnum \<Rightarrow> bool" where
  "isFinite (Num r) = True"
| "isFinite _ = False"

fun negate :: "jsnum \<Rightarrow> jsnum" where
  "negate NaN = NaN"
| "negate PosInf = NegInf"
| "negate NegInf = PosInf"
| "negate (Num r) = Num (- r)"

subsection \<open>Numeric literals: \<open>parseFloat\<close> and \<open>Number\<close>\<close>

definition digit_of :: "nat \<Rightarrow> char \<Rightarrow> nat option" where
  "digit_of base c =
     (case map_of (zip ''0123456789abcdef'' [0 ..< 16] @ zip ''ABCDEF'' [10 ..< 16]) c of
        Some d \<Rightarrow> if d < base then Some d else None
      | None \<Rightarrow> None)"

definition isDigit :: "nat \<Rightarrow> char \<Rightarrow> bool" where
  "isDigit base c = (case digit_of base c of Some d \<Rightarrow> True | None \<Rightarrow> False)"

definition digits_value :: "nat \<Rightarrow> string \<Rightarrow> nat" where
  "digits_value base ds =
     foldl (\<lambda>acc c. acc * base + (case digit_of base c of Some d \<Rightarrow> d | None \<Rightarrow> 0)) 0 ds"

text \<open>
  The exponent part of a decimal literal: \<open>e\<close> or \<open>E\<close>, an optional sign and at least one
  digit. When the text does not hold a complete exponent, none is read.
\<close>

definition parse_exponent :: "string \<Rightarrow> int \<times> string" where
  "parse_exponent s =
     (case s of
        [] \<Rightarrow> (0, s)
      | c # t \<Rightarrow>
          if c = CHR ''e'' \<or> c = CHR ''E'' then
            (let (neg, u) = (case t of
                               [] \<Rightarrow> (False, t)
                             | d # v \<Rightarrow> if d = CHR ''-'' then (True, v)
                                        else if d = CHR ''+'' then (False, v)
                                        else (False, t));
                 ds = takeWhile (isDigit 10) u
             in if ds = [] then (0, s)
                else ((if neg then - int (digits_value 10 ds) else int (digits_value 10 ds)),
                      dropWhile (isDigit 10) u))
          else (0, s))"

definition scale10 :: "rat \<Rightarrow> int \<Rightarrow> rat" where
  "scale10 m e = (if 0 \<le> e then m * 10 ^ nat e else m / 10 ^ nat (- e))"

text \<open>
  The longest prefix that is an unsigned decimal literal (\<open>Infinity\<close>, \<open>12\<close>, \<open>12.\<close>,
  \<open>12.5\<close>, \<open>.5\<close>, each with an optional exponent), with its value and the rest of the
  text; \<open>None\<close> when no prefix is one.
\<close>

definition parse_unsigned :: "string \<Rightarrow> (jsnum \<times> string) option" where
  "parse_unsigned s =
     (if prefix ''Infinity'' s then Some (PosInf, drop 8 s)
      else
        (let ip = takeWhile (isDigit 10) s;
             r1 = dropWhile (isDigit 10) s;
             (fp, r2) = (case r1 of
                           [] \<Rightarrow> ([], r1)
                         | c # t \<Rightarrow> if c = CHR ''.''
                                    then (takeWhile (isDigit 10) t, dropWhile (isDigit 10) t)
                                    else ([], r1))
         in if ip = [] \<and> fp = [] then None
            else
              (let mant = of_nat (digits_value 10 ip)
                          + of_nat (digits_value 10 fp) / 10 ^ length fp;
                   (e, r3) = parse_exponent r2
               in Some (Num (scale10 mant e), r3))))"

definition parse_signed :: "string \<Rightarrow> (jsnum \<times> string) option" where
  "parse_signed s =
     (case s of
        [] \<Rightarrow> None
      | c # t \<Rightarrow>
          if c = CHR ''-'' then map_option (\<lambda>(v, r). (negate v, r)) (parse_unsigned t)
          else if c = CHR ''+'' then parse_unsigned t
          else parse_unsigned s)"


definition parse_radix :: "nat \<Rightarrow> string \<Rightarrow> jsnum" where
  "parse_radix base ds =
     (if ds \<noteq> [] \<and> list_all (isDigit base) ds then Num (of_nat (digits_value base ds)) else NaN)"

text \<open>\<open>Number(s)\<close> on a string: the whole trimmed text must be one numeric literal.\<close>

definition Number :: "string \<Rightarrow> jsnum" where
  "Number s =
     (let t = trim s in
      if t = [] then Num 0
      else if prefix ''0x'' t \<or> prefix ''0X'' t then parse_radix 16 (drop 2 t)
      else if prefix ''0o'' t \<or> prefix ''0O'' t then parse_radix 8 (drop 2 t)
      else if prefix ''0b'' t \<or> prefix ''0B'' t then parse_radix 2 (drop 2 t)
      else (case parse_signed t of
              Some (v, r) \<Rightarrow> if r = [] then v else NaN
            | None \<Rightarrow> NaN))"

section \<open>The texts of the messages\<close>

text \<open>
  The Chinese fragments of the messages, as UTF-8 bytes, each with its meaning.
\<close>

definition zh_request_failed :: string where \<comment> \<open>request failed\<close>
  "zh_request_failed =
     [CHR 0xE8, CHR 0xAF, CHR 0xB7, CHR 0xE6, CHR 0xB1, CHR 0x82, CHR 0xE5, CHR 0xA4, CHR 0xB1,
      CHR 0xE8, CHR 0xB4, CHR 0xA5]"

definition zh_response_format_error :: string where \<comment> \<open>response data format error\<close>
  "zh_response_format_error =
     [CHR 0xE5, CHR 0x93, CHR 0x8D, CHR 0xE5, CHR 0xBA, CHR 0x94, CHR 0xE6, CHR 0x95, CHR 0xB0,
      CHR 0xE6, CHR 0x8D, CHR 0xAE, CHR 0xE6, CHR 0xA0, CHR 0xBC, CHR 0xE5, CHR 0xBC, CHR 0x8F,
      CHR 0xE9, CHR 0x94, CHR 0x99, CHR 0xE8, CHR 0xAF, CHR 0xAF]"

definition zh_validation_failed :: string where \<comment> \<open>account connection validation failed\<close>
  "zh_validation_failed =
     [CHR 0xE8, CHR 0xB4, CHR 0xA6, CHR 0xE5, CHR 0x8F, CHR 0xB7, CHR 0xE8, CHR 0xBF, CHR 0x9E,
      CHR 0xE6, CHR 0x8E, CHR 0xA5, CHR 0xE9, CHR 0xAA, CHR 0x8C, CHR 0xE8, CHR 0xAF, CHR 0x81,
      CHR 0xE5, CHR 0xA4, CHR 0xB1, CHR 0xE8, CHR 0xB4, CHR 0xA5]"

definition zh_adapter_requires :: string where \<comment> \<open>adapter requires\<close>
  "zh_adapter_requires =
     [CHR 0xE9, CHR 0x80, CHR 0x82, CHR 0xE9, CHR 0x85, CHR 0x8D, CHR 0xE5, CHR 0x99, CHR 0xA8,
      CHR 0xE9, CHR 0x9C, CHR 0x80, CHR 0xE8, CHR 0xA6, CHR 0x81]"

definition zh_auth :: string where \<comment> \<open>authentication\<close>
  "zh_auth =
     [CHR 0xE9, CHR 0x89, CHR 0xB4, CHR 0xE6, CHR 0x9D, CHR 0x83]"

definition zh_browser_login :: string where \<comment> \<open>(browser login state), in full-width brackets\<close>
  "zh_browser_login =
     [CHR 0xEF, CHR 0xBC, CHR 0x88, CHR 0xE6, CHR 0xB5, CHR 0x8F, CHR 0xE8, CHR 0xA7, CHR 0x88,
      CHR 0xE5, CHR 0x99, CHR 0xA8, CHR 0xE7, CHR 0x99, CHR 0xBB, CHR 0xE5, CHR 0xBD, CHR 0x95,
      CHR 0xE6, CHR 0x80, CHR 0x81, CHR 0xEF, CHR 0xBC, CHR 0x89]"

definition zh_response_malformed :: string where \<comment> \<open>response format abnormal\<close>
  "zh_response_malformed =
     [CHR 0xE5, CHR 0x93, CHR 0x8D, CHR 0xE5, CHR 0xBA, CHR 0x94, CHR 0xE6, CHR 0xA0, CHR 0xBC,
      CHR 0xE5, CHR 0xBC, CHR 0x8F, CHR 0xE5, CHR 0xBC, CHR 0x82, CHR 0xE5, CHR 0xB8, CHR 0xB8]"

definition zh_no_username_cookie :: string where \<comment> \<open>no user name obtained, perhaps not logged in or the cookie has expired\<close>
  "zh_no_username_cookie =
     [CHR 0xE6, CHR 0x9C, CHR 0xAA, CHR 0xE8, CHR 0x8E, CHR 0xB7, CHR 0xE5, CHR 0x8F, CHR 0x96,
      CHR 0xE5, CHR 0x88, CHR 0xB0, CHR 0xE7, CHR 0x94, CHR 0xA8, CHR 0xE6, CHR 0x88, CHR 0xB7,
      CHR 0xE5, CHR 0x90, CHR 0x8D, CHR 0xEF, CHR 0xBC, CHR 0x8C, CHR 0xE5, CHR 0x8F, CHR 0xAF,
      CHR 0xE8, CHR 0x83, CHR 0xBD, CHR 0xE6, CHR 0x9C, CHR 0xAA, CHR 0xE7, CHR 0x99, CHR 0xBB,
      CHR 0xE5, CHR 0xBD, CHR 0x95, CHR 0xE6, CHR 0x88, CHR 0x96, CHR 0x20, CHR 0x43, CHR 0x6F,
      CHR 0x6F, CHR 0x6B, CHR 0x69, CHR 0x65, CHR 0x20, CHR 0xE5, CHR 0xB7, CHR 0xB2, CHR 0xE5,
      CHR 0xA4, CHR 0xB1, CHR 0xE6, CHR 0x95, CHR 0x88]"

definition zh_unknown_error :: string where \<comment> \<open>unknown error\<close>
  "zh_unknown_error =
     [CHR 0xE6, CHR 0x9C, CHR 0xAA, CHR 0xE7, CHR 0x9F, CHR 0xA5, CHR 0xE9, CHR 0x94, CHR 0x99,
      CHR 0xE8, CHR 0xAF, CHR 0xAF]"

definition zh_site_url_empty :: string where \<comment> \<open>the site address must not be empty\<close>
  "zh_site_url_empty =
     [CHR 0xE7, CHR 0xAB, CHR 0x99, CHR 0xE7, CHR 0x82, CHR 0xB9, CHR 0xE5, CHR 0x9C, CHR 0xB0,
      CHR 0xE5, CHR 0x9D, CHR 0x80, CHR 0xE4, CHR 0xB8, CHR 0x8D, CHR 0xE8, CHR 0x83, CHR 0xBD,
      CHR 0xE4, CHR 0xB8, CHR 0xBA, CHR 0xE7, CHR 0xA9, CHR 0xBA]"

definition zh_response_abnormal :: string where \<comment> \<open>response abnormal\<close>
  "zh_response_abnormal =
     [CHR 0xE5, CHR 0x93, CHR 0x8D, CHR 0xE5, CHR 0xBA, CHR 0x94, CHR 0xE5, CHR 0xBC, CHR 0x82,
      CHR 0xE5, CHR 0xB8, CHR 0xB8]"

definition zh_get :: string where \<comment> \<open>get\<close>
  "zh_get =
     [CHR 0xE8, CHR 0x8E, CHR 0xB7, CHR 0xE5, CHR 0x8F, CHR 0x96]"

definition zh_failed :: string where \<comment> \<open>failed\<close>
  "zh_failed =
     [CHR 0xE5, CHR 0xA4, CHR 0xB1, CHR 0xE8, CHR 0xB4, CHR 0xA5]"

definition zh_network_failed :: string where \<comment> \<open>network connection failed\<close>
  "zh_network_failed =
     [CHR 0xE7, CHR 0xBD, CHR 0x91, CHR 0xE7, CHR 0xBB, CHR 0x9C, CHR 0xE8, CHR 0xBF, CHR 0x9E,
      CHR 0xE6, CHR 0x8E, CHR 0xA5, CHR 0xE5, CHR 0xA4, CHR 0xB1, CHR 0xE8, CHR 0xB4, CHR 0xA5]"


definition zh_unsupported_site_type :: string where \<comment> \<open>unsupported site type\<close>
  "zh_unsupported_site_type =
     [CHR 0xE4, CHR 0xB8, CHR 0x8D, CHR 0xE6, CHR 0x94, CHR 0xAF, CHR 0xE6, CHR 0x8C, CHR 0x81,
      CHR 0xE7, CHR 0x9A, CHR 0x84, CHR 0xE7, CHR 0xAB, CHR 0x99, CHR 0xE7, CHR 0x82, CHR 0xB9,
      CHR 0xE7, CHR 0xB1, CHR 0xBB, CHR 0xE5, CHR 0x9E, CHR 0x8B]"








definition zh_account_lacks_credentials :: string where \<comment> \<open>the account lacks userId or access_token\<close>
  "zh_account_lacks_credentials =
     [CHR 0xE8, CHR 0xB4, CHR 0xA6, CHR 0xE5, CHR 0x8F, CHR 0xB7, CHR 0xE7, CHR 0xBC, CHR 0xBA,
      CHR 0xE5, CHR 0xB0, CHR 0x91, CHR 0x20, CHR 0x75, CHR 0x73, CHR 0x65, CHR 0x72, CHR 0x49,
      CHR 0x64, CHR 0x20, CHR 0xE6, CHR 0x88, CHR 0x96, CHR 0x20, CHR 0x61, CHR 0x63, CHR 0x63,
      CHR 0x65, CHR 0x73, CHR 0x73, CHR 0x5F, CHR 0x74, CHR 0x6F, CHR 0x6B, CHR 0x65, CHR 0x6E]"

definition zh_account :: string where \<comment> \<open>account\<close>
  "zh_account =
     [CHR 0xE8, CHR 0xB4, CHR 0xA6, CHR 0xE5, CHR 0x8F, CHR 0xB7]"

definition zh_not_exist :: string where \<comment> \<open>does not exist\<close>
  "zh_not_exist =
     [CHR 0xE4, CHR 0xB8, CHR 0x8D, CHR 0xE5, CHR 0xAD, CHR 0x98, CHR 0xE5, CHR 0x9C, CHR 0xA8]"





section \<open>Errors, requests and promises\<close>

text \<open>
  The error classes the code throws and catches. \<open>ApiError\<close> carries the message, the
  optional HTTP status code and the endpoint.
\<close>

datatype js_error =
    Error string
  | TypeError string
  | SyntaxError string
  | ApiError string "nat option" string
  | AdapterRegistrationError string
  | NotSupportedError string

fun error_message :: "js_error \<Rightarrow> string" where
  "error_message (Error m) = m"
| "error_message (TypeError m) = m"
| "error_message (SyntaxError m) = m"
| "error_message (ApiError m c ep) = m"
| "error_message (AdapterRegistrationError m) = m"
| "error_message (NotSupportedError m) = m"

text \<open>
  Every call that leaves the extension is a \<open>request\<close>; an operation returns, with its
  result, the requests it issued, in order.
  \<^item> \<open>GetUserSelf baseUrl userId accessToken\<close>: \<open>GET baseUrl/api/user/self\<close> with the
    bearer token and no cookies;
  \<^item> \<open>GetLogSelf baseUrl userId accessToken p start end\<close>: page \<open>p\<close> of
    \<open>GET baseUrl/api/log/self\<close> with \<open>page_size = 100\<close> over the time stamps;
  \<^item> \<open>GetStatus baseUrl\<close>: \<open>GET baseUrl/api/status\<close>;
  \<^item> \<open>DirectFetch fetchUrl\<close>: the Cubence adapter's \<open>fetch\<close> with the browser's cookies;
  \<^item> \<open>PageFetchJson url fetchUrl\<close>: the \<open>pageFetchJson\<close> message to the background page.
\<close>

datatype request =
    GetUserSelf string jsnum string
  | GetLogSelf string jsnum string nat int int
  | GetStatus string
  | DirectFetch string
  | PageFetchJson string string

text \<open>
  A settled promise: rejected with an error (\<open>Inl\<close>) or resolved with a value
  (\<open>Inr\<close>), and the requests issued until then.
\<close>

type_synonym 'a promise = "(js_error + 'a) \<times> request list"

section \<open>The adapter contract (\<open>adapters/types.ts\<close>, \<open>ISiteAdapter\<close>)\<close>

datatype AdapterCapability =
  AUTO_DETECT | BALANCE | USAGE_STATS | TOKEN_MANAGEMENT | MODEL_LIST | MODEL_PRICING

datatype SiteAuth =
    OneApiToken jsnum string
  | ApiKeyAuth string
  | CookieAuth "jsnum option"

fun kind :: "SiteAuth \<Rightarrow> string" where
  "kind (OneApiToken uid token) = ''one-api-token''"
| "kind (ApiKeyAuth key) = ''api-key''"
| "kind (CookieAuth uid) = ''cookie''"

type_synonym adapter_config = "(string \<times> string) list"

record SiteCredentials =
  siteUrl :: string
  auth :: SiteAuth
  adapterConfig :: "adapter_config option"

text \<open>\<open>details\<close> of a validation is read at \<open>details.username\<close> and \<open>details.user.username\<close>.\<close>

record ValidateDetails =
  details_username :: "string option"
  details_user_username :: "string option"

record ValidateResult =
  ok :: bool
  message :: "string option"
  details :: "ValidateDetails option"

record BalanceInfo =
  rawBalance :: rat
  rawUnit :: string
  conversionFactor :: "rat option"
  balanceUSD :: "rat option"

record UsageStats =
  rawConsumption :: rat
  usage_rawUnit :: string
  usage_conversionFactor :: "rat option"
  promptTokens :: "rat option"
  completionTokens :: "rat option"
  requestCount :: "rat option"

record TimeRange =
  range_start :: int
  range_end :: int

text \<open>
  Modelled from the spec: \<open>utils/autoDetectUtils\<close> (the type \<open>AutoDetectError\<close> and the
  function \<open>analyzeAutoDetectError\<close>) is not among the sources. The spec calls its result
  a classified \<open>detailedError\<close>; here it is a class and a message, and the classifying
  function is a parameter wherever the code calls it, on the text or the error it is given.
\<close>

datatype AutoDetectError = AutoDetectError string string

type_synonym analyzer = "string + js_error \<Rightarrow> AutoDetectError"

record AutoDetectData =
  username :: string
  accessToken :: string
  userId :: string
  exchangeRate :: "rat option"

text \<open>
  The result records of the three flows share the source's field names \<open>success\<close>,
  \<open>data\<close>, \<open>error\<close> and \<open>detailedError\<close>; the later records carry them with the
  record's initial in front.
\<close>

record AutoDetectResult =
  success :: bool
  data :: "AutoDetectData option"
  error_text :: "string option"
  detailedError :: "AutoDetectError option"

text \<open>The status of a site: the exchange-rate fields of \<open>/api/status\<close>, or Cubence's host.\<close>

datatype SiteStatusInfo =
    StatusFields "rat option" "rat option" "rat option"
  | Detected string

record BalanceDescriptor =
  balance_rawUnit :: string
  balance_conversionFactor :: rat

record SiteAdapterMetadata =
  adapterId :: string
  adapterName :: string
  version :: string
  supportedSiteTypes :: "string list"
  capabilities :: "AdapterCapability list"
  balance :: "BalanceDescriptor option"

text \<open>
  An adapter object. An optional method the orchestration calls is an optional function;
  the optional methods it only checks for (token management, model list and pricing) are
  the flag that the method is there.
\<close>

record ISiteAdapter =
  metadata :: SiteAdapterMetadata
  validateConnection :: "SiteCredentials \<Rightarrow> ValidateResult promise"
  getAccountBalance :: "(SiteCredentials \<Rightarrow> BalanceInfo promise) option"
  getUsageStats :: "(SiteCredentials \<Rightarrow> TimeRange \<Rightarrow> UsageStats promise) option"
  autoDetectAccount :: "(string \<Rightarrow> AutoDetectResult promise) option"
  getOrCreateAccessToken :: bool
  getApiTokens :: bool
  createApiToken :: bool
  updateApiToken :: bool
  deleteApiToken :: bool
  getAvailableModels :: bool
  getModelPricing :: bool
  getSiteStatus :: "(string \<Rightarrow> SiteStatusInfo option promise) option"

section \<open>The adapter registry (\<open>adapters/SiteAdapterRegistry.ts\<close>)\<close>

text \<open>
  The two \<open>Map\<close>s are association lists in insertion order: \<open>has\<close>/\<open>get\<close> is \<open>map_of\<close>,
  \<open>set\<close> is \<open>AList.update\<close> (in place for a key that is there, at the end for a new one),
  \<open>values()\<close> is \<open>map snd\<close>.
\<close>

record SiteAdapterRegistry =
  adaptersById :: "(string \<times> ISiteAdapter) list"
  adaptersBySiteType :: "(string \<times> ISiteAdapter) list"
  builtInsRegistered :: bool

definition has :: "(string \<times> 'v) list \<Rightarrow> string \<Rightarrow> bool" where
  "has m k = (case map_of m k of Some v \<Rightarrow> True | None \<Rightarrow> False)"

definition normalizeSiteType :: "string \<Rightarrow> string" where
  "normalizeSiteType siteType = toLowerCase (trim siteType)"

definition normalizeSiteUrl :: "string \<Rightarrow> string" where
  "normalizeSiteUrl url = rev (dropWhile (\<lambda>c. c = CHR ''/'') (rev (trim url)))"

definition zh_declared :: string where
  "zh_declared = [CHR 0xE5, CHR 0xA3, CHR 0xB0, CHR 0xE6, CHR 0x98, CHR 0x8E, CHR 0xE4, CHR 0xBA, CHR 0x86]"

definition zh_but_not_implemented :: string where
  "zh_but_not_implemented =
     [CHR 0xE4, CHR 0xBD, CHR 0x86, CHR 0xE6, CHR 0x9C, CHR 0xAA, CHR 0xE5, CHR 0xAE, CHR 0x9E,
      CHR 0xE7, CHR 0x8E, CHR 0xB0]"

definition zh_must_not_be_empty :: string where
  "zh_must_not_be_empty =
     [CHR 0xE4, CHR 0xB8, CHR 0x8D, CHR 0xE8, CHR 0x83, CHR 0xBD, CHR 0xE4, CHR 0xB8, CHR 0xBA,
      CHR 0xE7, CHR 0xA9, CHR 0xBA]"

definition zh_duplicate_registration :: string where
  "zh_duplicate_registration =
     [CHR 0xE9, CHR 0x87, CHR 0x8D, CHR 0xE5, CHR 0xA4, CHR 0x8D, CHR 0xE6, CHR 0xB3, CHR 0xA8,
      CHR 0xE5, CHR 0x86, CHR 0x8C]"

definition zh_taken_by :: string where
  "zh_taken_by = [CHR 0xE5, CHR 0xB7, CHR 0xB2, CHR 0xE8, CHR 0xA2, CHR 0xAB]"

definition zh_cannot_register_again_to :: string where
  "zh_cannot_register_again_to =
     [CHR 0xE5, CHR 0x8D, CHR 0xA0, CHR 0xE7, CHR 0x94, CHR 0xA8, CHR 0xEF, CHR 0xBC, CHR 0x8C,
      CHR 0xE6, CHR 0x97, CHR 0xA0, CHR 0xE6, CHR 0xB3, CHR 0x95, CHR 0xE9, CHR 0x87, CHR 0x8D,
      CHR 0xE5, CHR 0xA4, CHR 0x8D, CHR 0xE6, CHR 0xB3, CHR 0xA8, CHR 0xE5, CHR 0x86, CHR 0x8C,
      CHR 0xE5, CHR 0x88, CHR 0xB0]"

definition notImplemented :: "ISiteAdapter \<Rightarrow> string \<Rightarrow> string \<Rightarrow> js_error" where
  "notImplemented adapter cap method =
     AdapterRegistrationError
       (''adapter '' @ quote @ adapterId (metadata adapter) @ quote @ '' '' @ zh_declared @ '' ''
        @ cap @ '' '' @ zh_but_not_implemented @ '' '' @ method)"

definition missingTokenMethods :: "ISiteAdapter \<Rightarrow> string list" where
  "missingTokenMethods adapter =
     (if \<not> getApiTokens adapter then [''getApiTokens''] else [])
     @ (if \<not> createApiToken adapter then [''createApiToken''] else [])
     @ (if \<not> updateApiToken adapter then [''updateApiToken''] else [])
     @ (if \<not> deleteApiToken adapter then [''deleteApiToken''] else [])"

text \<open>\<open>None\<close>: the check returns; \<open>Some e\<close>: it throws \<open>e\<close>.\<close>

definition assertCapabilitiesImplemented :: "ISiteAdapter \<Rightarrow> js_error option" where
  "assertCapabilitiesImplemented adapter =
     (let caps = capabilities (metadata adapter);
          has_cap = (\<lambda>cap. List.member caps cap)
      in if has_cap AUTO_DETECT \<and> autoDetectAccount adapter = None
           then Some (notImplemented adapter ''AUTO_DETECT'' ''autoDetectAccount()'')
         else if has_cap BALANCE \<and> getAccountBalance adapter = None
           then Some (notImplemented adapter ''BALANCE'' ''getAccountBalance()'')
         else if has_cap USAGE_STATS \<and> getUsageStats adapter = None
           then Some (notImplemented adapter ''USAGE_STATS'' ''getUsageStats()'')
         else if has_cap TOKEN_MANAGEMENT \<and> missingTokenMethods adapter \<noteq> []
           then Some (AdapterRegistrationError
                  (''adapter '' @ quote @ adapterId (metadata adapter) @ quote @ '' ''
                   @ zh_declared @ '' TOKEN_MANAGEMENT '' @ zh_but_not_implemented @ '': ''
                   @ join '', '' (missingTokenMethods adapter)))
         else if has_cap MODEL_LIST \<and> \<not> getAvailableModels adapter
           then Some (notImplemented adapter ''MODEL_LIST'' ''getAvailableModels()'')
         else if has_cap MODEL_PRICING \<and> \<not> getModelPricing adapter
           then Some (notImplemented adapter ''MODEL_PRICING'' ''getModelPricing()'')
         else None)"

text \<open>
  The loop of \<open>registerAdapter\<close> over \<open>supportedSiteTypes\<close>: the keys set before a clash
  stay in the map when it throws.
\<close>

fun registerSiteTypes ::
  "ISiteAdapter \<Rightarrow> string list \<Rightarrow> (string \<times> ISiteAdapter) list
    \<Rightarrow> js_error option \<times> (string \<times> ISiteAdapter) list" where
  "registerSiteTypes adapter [] m = (None, m)"
| "registerSiteTypes adapter (siteType # rest) m =
     (let normalized = normalizeSiteType siteType in
      case map_of m normalized of
        Some existing \<Rightarrow>
          (Some (AdapterRegistrationError
             (''site_type '' @ quote @ normalized @ quote @ '' '' @ zh_taken_by @ '' '' @ quote
              @ adapterId (metadata existing) @ quote @ '' '' @ zh_cannot_register_again_to
              @ '' '' @ quote @ adapterId (metadata adapter) @ quote)), m)
      | None \<Rightarrow> registerSiteTypes adapter rest (AList.update normalized adapter m))"

text \<open>The error thrown, if any, and the registry as the call leaves it.\<close>

definition registerAdapter ::
  "SiteAdapterRegistry \<Rightarrow> ISiteAdapter \<Rightarrow> js_error option \<times> SiteAdapterRegistry" where
  "registerAdapter reg adapter =
     (if adapterId (metadata adapter) = []
        then (Some (AdapterRegistrationError (''adapter.metadata.id '' @ zh_must_not_be_empty)), reg)
      else
        (case assertCapabilitiesImplemented adapter of
           Some e \<Rightarrow> (Some e, reg)
         | None \<Rightarrow>
             if has (adaptersById reg) (adapterId (metadata adapter))
               then (Some (AdapterRegistrationError
                       (zh_duplicate_registration @ '' adapter id: '' @ adapterId (metadata adapter))),
                     reg)
             else
               (let reg1 = reg\<lparr>adaptersById :=
                              AList.update (adapterId (metadata adapter)) adapter (adaptersById reg)\<rparr>;
                    (thrown, m) = registerSiteTypes adapter (supportedSiteTypes (metadata adapter))
                                    (adaptersBySiteType reg1)
                in (thrown, reg1\<lparr>adaptersBySiteType := m\<rparr>))))"

definition getAdapter :: "SiteAdapterRegistry \<Rightarrow> string \<Rightarrow> ISiteAdapter option" where
  "getAdapter reg siteType = map_of (adaptersBySiteType reg) (normalizeSiteType siteType)"

definition getAllAdapters :: "SiteAdapterRegistry \<Rightarrow> ISiteAdapter list" where
  "getAllAdapters reg = map snd (adaptersById reg)"

text \<open>
  The loop of \<open>detectSiteType\<close>: an adapter without \<open>getSiteStatus\<close> is skipped, a probe that
  rejects or resolves to \<open>null\<close> goes on to the next adapter.
\<close>

fun detectLoop :: "string \<Rightarrow> ISiteAdapter list \<Rightarrow> string option promise" where
  "detectLoop url [] = (Inr None, [])"
| "detectLoop url (adapter # rest) =
     (case getSiteStatus adapter of
        None \<Rightarrow> detectLoop url rest
      | Some probe \<Rightarrow>
          (case probe url of
             (Inr (Some status), reqs) \<Rightarrow> (Inr (Some (adapterId (metadata adapter))), reqs)
           | (Inr None, reqs) \<Rightarrow> (case detectLoop url rest of (r, reqs') \<Rightarrow> (r, reqs @ reqs'))
           | (Inl e, reqs) \<Rightarrow> (case detectLoop url rest of (r, reqs') \<Rightarrow> (r, reqs @ reqs'))))"

definition detectSiteType :: "SiteAdapterRegistry \<Rightarrow> string \<Rightarrow> string option promise" where
  "detectSiteType reg url = detectLoop (normalizeSiteUrl url) (getAllAdapters reg)"

section \<open>The environment and the HTTP layer (\<open>services/apiService.ts\<close>)\<close>

text \<open>
  What \<open>fetch\<close> gives: it rejects, or it resolves to a response with a status whose body
  parses as JSON or does not. \<open>response.ok\<close> is a status from 200 to 299.
\<close>

datatype 'a json_body = InvalidJson js_error | JsonValue 'a

datatype 'a fetch_reply = FetchRejects js_error | Response nat "'a json_body"

definition response_ok :: "nat \<Rightarrow> bool" where
  "response_ok status = (200 \<le> status \<and> status \<le> 299)"

text \<open>The envelope \<open>ApiResponse<T>\<close>; \<open>api_data = None\<close> is \<open>data === undefined\<close>.\<close>

record 'a ApiResponse =
  api_success :: bool
  api_data :: "'a option"
  api_message :: "string option"

text \<open>
  What the background page answers to a message: the call rejects, there is no response
  object, the response has a falsy \<open>success\<close> (with its optional \<open>error\<close> text), or it
  carries the data.
\<close>

datatype 'a message_reply =
    MessageRejects js_error
  | NoResponse
  | Failure "string option"
  | Success 'a

record LogItem =
  item_quota :: "rat option"
  prompt_tokens :: "rat option"
  completion_tokens :: "rat option"
  token_name :: "string option"

record LogResponseData =
  items :: "LogItem list option"
  total :: "rat option"

record CubenceUser =
  user_username :: "string option"

record CubenceBalance =
  total_balance :: "rat option"
  total_balance_dollar :: "rat option"

record CubenceOverviewData =
  overview_user :: "CubenceUser option"
  overview_balance :: "CubenceBalance option"

record CubenceOverviewResponse =
  overview_success :: bool
  overview_data :: "CubenceOverviewData option"

datatype analytics_code = CodeNumber rat | CodeString string

record CubenceAnalyticsData =
  today_consumed_quota :: "rat option"
  today_request_count :: "rat option"
  today_tokens :: "rat option"

record CubenceAnalyticsTodayResponse =
  analytics_code :: "analytics_code option"
  analytics_message :: "string option"
  analytics_data :: "CubenceAnalyticsData option"

text \<open>
  Everything outside the extension's own code, as one value: the clock, the browser's
  built-ins that are not modelled (the URL parser, the rendering of a number as text), the
  replies of the remote sites and of the background page, and whether the key-value storage
  fails. \<open>usage_settles_first\<close> tells which of the two concurrent fetches settles first
  (\<open>Promise.all\<close> rejects with the first rejection). \<open>oneapi_autoDetectAccount\<close> is the
  outcome of \<open>OneApiAdapter.autoDetectAccount\<close>, which runs in the background page.
\<close>

record world =
  now :: int
  today :: TimeRange
  fresh_id :: string
  storage_get_fails :: bool
  storage_set_fails :: "js_error option"
  usage_settles_first :: bool
  number_toString :: "rat \<Rightarrow> string"
  url_resolve :: "string \<Rightarrow> string \<Rightarrow> js_error + string"
  url_hostname :: "string \<Rightarrow> js_error + string"
  http_user_self :: "string \<Rightarrow> jsnum \<Rightarrow> string \<Rightarrow> rat option ApiResponse fetch_reply"
  http_log_self ::
    "string \<Rightarrow> jsnum \<Rightarrow> string \<Rightarrow> nat \<Rightarrow> int \<Rightarrow> int \<Rightarrow> LogResponseData ApiResponse fetch_reply"
  http_status :: "string \<Rightarrow> SiteStatusInfo ApiResponse fetch_reply"
  direct_overview :: "string \<Rightarrow> CubenceOverviewResponse fetch_reply"
  page_overview :: "string \<Rightarrow> string \<Rightarrow> CubenceOverviewResponse message_reply"
  direct_analytics :: "string \<Rightarrow> CubenceAnalyticsTodayResponse fetch_reply"
  page_analytics :: "string \<Rightarrow> string \<Rightarrow> CubenceAnalyticsTodayResponse message_reply"
  oneapi_autoDetectAccount :: "string \<Rightarrow> AutoDetectResult promise"
  analyzeAutoDetectError :: analyzer

text \<open>\<open>Promise.all\<close> of two promises started together.\<close>

definition promise_all :: "bool \<Rightarrow> 'a promise \<Rightarrow> 'b promise \<Rightarrow> ('a \<times> 'b) promise" where
  "promise_all second_first p q =
     (case (fst p, fst q) of
        (Inr x, Inr y) \<Rightarrow> (Inr (x, y), snd p @ snd q)
      | (Inl e, Inr y) \<Rightarrow> (Inl e, snd p @ snd q)
      | (Inr x, Inl e) \<Rightarrow> (Inl e, snd p @ snd q)
      | (Inl e, Inl e') \<Rightarrow> (Inl (if second_first then e' else e), snd p @ snd q))"

text \<open>A natural number in decimal, as the template strings render a status code.\<close>

fun show_nat :: "nat \<Rightarrow> string" where
  "show_nat n =
     (if n < 10 then [''0123456789'' ! n] else show_nat (n div 10) @ [''0123456789'' ! (n mod 10)])"

declare show_nat.simps [simp del]

definition REQUEST_CONFIG_DEFAULT_PAGE_SIZE :: nat where
  "REQUEST_CONFIG_DEFAULT_PAGE_SIZE = 100"

definition REQUEST_CONFIG_MAX_PAGES :: nat where
  "REQUEST_CONFIG_MAX_PAGES = 100"

definition apiRequest :: "'a ApiResponse fetch_reply \<Rightarrow> string \<Rightarrow> js_error + 'a" where
  "apiRequest reply endpoint =
     (case reply of
        FetchRejects e \<Rightarrow> Inl e
      | Response status body \<Rightarrow>
          if \<not> response_ok status
            then Inl (ApiError (zh_request_failed @ '': '' @ show_nat status) (Some status) endpoint)
          else
            (case body of
               InvalidJson e \<Rightarrow> Inl e
             | JsonValue r \<Rightarrow>
                 (case api_data r of
                    None \<Rightarrow> Inl (ApiError zh_response_format_error None endpoint)
                  | Some d \<Rightarrow>
                      if \<not> api_success r
                        then Inl (ApiError zh_response_format_error None endpoint)
                      else Inr d)))"

record TodayUsageData =
  today_quota_consumption' :: rat
  today_prompt_tokens' :: rat
  today_completion_tokens' :: rat
  today_requests_count' :: rat

text \<open>\<open>x || 0\<close> on an optional number.\<close>

definition or_zero :: "rat option \<Rightarrow> rat" where
  "or_zero x = (case x of Some v \<Rightarrow> v | None \<Rightarrow> 0)"

text \<open>The three sums of a page, in the order quota, prompt tokens, completion tokens.\<close>

definition aggregateUsageData :: "LogItem list \<Rightarrow> rat \<times> rat \<times> rat" where
  "aggregateUsageData its =
     foldl (\<lambda>(q, p, c) item.
              (q + or_zero (item_quota item),
               p + or_zero (prompt_tokens item),
               c + or_zero (completion_tokens item)))
       (0, 0, 0) its"

definition fetchAccountQuota :: "world \<Rightarrow> string \<Rightarrow> jsnum \<Rightarrow> string \<Rightarrow> rat promise" where
  "fetchAccountQuota w baseUrl uid token =
     (case apiRequest (http_user_self w baseUrl uid token) ''/api/user/self'' of
        Inl e \<Rightarrow> (Inl e, [GetUserSelf baseUrl uid token])
      | Inr userData \<Rightarrow> (Inr (or_zero userData), [GetUserSelf baseUrl uid token]))"

text \<open>
  The \<open>while\<close> loop of \<open>fetchTodayUsage\<close>, from page \<open>currentPage\<close> with the count and the
  sums so far. A page whose request fails rejects the whole call.
\<close>

function fetchTodayUsage_loop ::
  "world \<Rightarrow> string \<Rightarrow> jsnum \<Rightarrow> string \<Rightarrow> nat \<Rightarrow> rat \<Rightarrow> rat \<times> rat \<times> rat
    \<Rightarrow> (rat \<times> rat \<times> rat \<times> rat) promise" where
  "fetchTodayUsage_loop w baseUrl uid token currentPage totalRequestsCount aggregatedData =
     (if currentPage \<le> REQUEST_CONFIG_MAX_PAGES then
        (let req = GetLogSelf baseUrl uid token currentPage
                     (range_start (today w)) (range_end (today w)) in
         case apiRequest (http_log_self w baseUrl uid token currentPage
                            (range_start (today w)) (range_end (today w))) ''/api/log/self'' of
           Inl e \<Rightarrow> (Inl e, [req])
         | Inr logData \<Rightarrow>
             (let its = (case items logData of Some xs \<Rightarrow> xs | None \<Rightarrow> []);
                  currentPageItemCount = of_nat (length its);
                  (pq, pp, pc) = aggregateUsageData its;
                  (aq, ap, ac) = aggregatedData;
                  aggregated = (aq + pq, ap + pp, ac + pc);
                  count = totalRequestsCount + currentPageItemCount;
                  totalPages = \<lceil>or_zero (total logData) / of_nat REQUEST_CONFIG_DEFAULT_PAGE_SIZE\<rceil>
              in if int currentPage \<ge> totalPages
                   then (Inr (aq + pq, ap + pp, ac + pc, count), [req])
                 else
                   (case fetchTodayUsage_loop w baseUrl uid token (currentPage + 1) count aggregated of
                      (r, reqs) \<Rightarrow> (r, req # reqs))))
      else (case aggregatedData of (aq, ap, ac) \<Rightarrow> (Inr (aq, ap, ac, totalRequestsCount), [])))"
  by pat_completeness auto
termination
  by (relation "measure (\<lambda>(w, baseUrl, uid, token, currentPage, c, a).
                  Suc REQUEST_CONFIG_MAX_PAGES - currentPage)") auto

declare fetchTodayUsage_loop.simps [simp del]

definition fetchTodayUsage :: "world \<Rightarrow> string \<Rightarrow> jsnum \<Rightarrow> string \<Rightarrow> TodayUsageData promise" where
  "fetchTodayUsage w baseUrl uid token =
     (case fetchTodayUsage_loop w baseUrl uid token 1 0 (0, 0, 0) of
        (Inl e, reqs) \<Rightarrow> (Inl e, reqs)
      | (Inr (q, p, c, n), reqs) \<Rightarrow>
          (Inr \<lparr>today_quota_consumption' = q, today_prompt_tokens' = p,
                today_completion_tokens' = c, today_requests_count' = n\<rparr>, reqs))"

text \<open>\<open>fetchSiteStatus\<close>: every failure is \<open>null\<close>.\<close>

definition fetchSiteStatus :: "world \<Rightarrow> string \<Rightarrow> SiteStatusInfo option promise" where
  "fetchSiteStatus w baseUrl =
     (case http_status w baseUrl of
        FetchRejects e \<Rightarrow> (Inr None, [GetStatus baseUrl])
      | Response status body \<Rightarrow>
          if \<not> response_ok status then (Inr None, [GetStatus baseUrl])
          else
            (case body of
               InvalidJson e \<Rightarrow> (Inr None, [GetStatus baseUrl])
             | JsonValue r \<Rightarrow>
                 if \<not> api_success r then (Inr None, [GetStatus baseUrl])
                 else (Inr (api_data r), [GetStatus baseUrl])))"

definition validateAccountConnection :: "world \<Rightarrow> string \<Rightarrow> jsnum \<Rightarrow> string \<Rightarrow> bool promise" where
  "validateAccountConnection w baseUrl uid token =
     (case fetchAccountQuota w baseUrl uid token of
        (Inr q, reqs) \<Rightarrow> (Inr True, reqs)
      | (Inl e, reqs) \<Rightarrow> (Inr False, reqs))"

subsection \<open>Health status\<close>

datatype SiteHealthStatus = healthy | warning | error | unknown

record HealthCheckResult =
  status :: SiteHealthStatus
  health_message :: string

text \<open>
  \<open>error.statusCode\<close> is truthy when it is there and not zero; \<open>error?.message || ...\<close>
  falls back on an empty message.
\<close>

fun determineHealthStatus :: "js_error \<Rightarrow> HealthCheckResult" where
  "determineHealthStatus (ApiError m code ep) =
     (case code of
        Some c \<Rightarrow>
          if c \<noteq> 0
            then \<lparr>status = warning, health_message = ''HTTP '' @ show_nat c @ '': '' @ m\<rparr>
          else \<lparr>status = unknown, health_message = m\<rparr>
      | None \<Rightarrow> \<lparr>status = unknown, health_message = m\<rparr>)"
| "determineHealthStatus (TypeError m) =
     (if str_includes m ''fetch'' then \<lparr>status = error, health_message = zh_network_failed\<rparr>
      else \<lparr>status = unknown, health_message = (if m = [] then zh_unknown_error else m)\<rparr>)"
| "determineHealthStatus e =
     \<lparr>status = unknown,
      health_message = (if error_message e = [] then zh_unknown_error else error_message e)\<rparr>"

section \<open>The OneApi adapter (\<open>adapters/OneApiAdapter.ts\<close>)\<close>

definition OneApi_metadata :: SiteAdapterMetadata where
  "OneApi_metadata =
     \<lparr>adapterId = ''one-api'',
      adapterName = ''OneAPI'',
      version = ''1.0.0'',
      supportedSiteTypes = [''one-api'', ''new-api'', ''veloera'', ''one-hub'', ''done-hub''],
      capabilities = [AUTO_DETECT, BALANCE, USAGE_STATS, TOKEN_MANAGEMENT, MODEL_LIST, MODEL_PRICING],
      balance = Some \<lparr>balance_rawUnit = ''quota_points'', balance_conversionFactor = 500000\<rparr>\<rparr>"

text \<open>The message of the adapter's guard on the kind of the credentials.\<close>

definition OneApi_kind_mismatch :: string where
  "OneApi_kind_mismatch = ''one-api '' @ zh_adapter_requires @ '' one-api-token '' @ zh_auth"

definition OneApi_rawUnit :: string where
  "OneApi_rawUnit = (case balance OneApi_metadata of Some b \<Rightarrow> balance_rawUnit b | None \<Rightarrow> [])"

definition OneApi_conversionFactor :: rat where
  "OneApi_conversionFactor =
     (case balance OneApi_metadata of Some b \<Rightarrow> balance_conversionFactor b | None \<Rightarrow> 0)"

definition OneApi_validateConnection :: "world \<Rightarrow> SiteCredentials \<Rightarrow> ValidateResult promise" where
  "OneApi_validateConnection w credentials =
     (if kind (auth credentials) \<noteq> ''one-api-token''
        then (Inr \<lparr>ok = False, message = Some OneApi_kind_mismatch, details = None\<rparr>, [])
      else
        (case auth credentials of
           OneApiToken uid token \<Rightarrow>
             (case validateAccountConnection w (siteUrl credentials) uid token of
                (Inr valid, reqs) \<Rightarrow>
                  (if valid then (Inr \<lparr>ok = True, message = None, details = None\<rparr>, reqs)
                   else (Inr \<lparr>ok = False, message = Some zh_validation_failed, details = None\<rparr>, reqs))
              | (Inl e, reqs) \<Rightarrow> (Inl e, reqs))
         | _ \<Rightarrow> (Inr \<lparr>ok = False, message = Some OneApi_kind_mismatch, details = None\<rparr>, [])))"

definition OneApi_getAccountBalance :: "world \<Rightarrow> SiteCredentials \<Rightarrow> BalanceInfo promise" where
  "OneApi_getAccountBalance w credentials =
     (if kind (auth credentials) \<noteq> ''one-api-token''
        then (Inl (Error OneApi_kind_mismatch), [])
      else
        (case auth credentials of
           OneApiToken uid token \<Rightarrow>
             (case fetchAccountQuota w (siteUrl credentials) uid token of
                (Inl e, reqs) \<Rightarrow> (Inl e, reqs)
              | (Inr rawQuota, reqs) \<Rightarrow>
                  (Inr \<lparr>rawBalance = rawQuota,
                        rawUnit = OneApi_rawUnit,
                        conversionFactor = Some OneApi_conversionFactor,
                        balanceUSD = Some (rawQuota / OneApi_conversionFactor)\<rparr>, reqs))
         | _ \<Rightarrow> (Inl (Error OneApi_kind_mismatch), [])))"

text \<open>The time range given by the caller is not read: the fetch is of today's usage.\<close>

definition OneApi_getUsageStats ::
  "world \<Rightarrow> SiteCredentials \<Rightarrow> TimeRange \<Rightarrow> UsageStats promise" where
  "OneApi_getUsageStats w credentials timeRange =
     (if kind (auth credentials) \<noteq> ''one-api-token''
        then (Inl (Error OneApi_kind_mismatch), [])
      else
        (case auth credentials of
           OneApiToken uid token \<Rightarrow>
             (case fetchTodayUsage w (siteUrl credentials) uid token of
                (Inl e, reqs) \<Rightarrow> (Inl e, reqs)
              | (Inr raw, reqs) \<Rightarrow>
                  (Inr \<lparr>rawConsumption = today_quota_consumption' raw,
                        usage_rawUnit = OneApi_rawUnit,
                        usage_conversionFactor = Some OneApi_conversionFactor,
                        promptTokens = Some (today_prompt_tokens' raw),
                        completionTokens = Some (today_completion_tokens' raw),
                        requestCount = Some (today_requests_count' raw)\<rparr>, reqs))
         | _ \<Rightarrow> (Inl (Error OneApi_kind_mismatch), [])))"

definition OneApi_getSiteStatus :: "world \<Rightarrow> string \<Rightarrow> SiteStatusInfo option promise" where
  "OneApi_getSiteStatus w url = fetchSiteStatus w url"

definition OneApiAdapter :: "world \<Rightarrow> ISiteAdapter" where
  "OneApiAdapter w =
     \<lparr>metadata = OneApi_metadata,
      validateConnection = OneApi_validateConnection w,
      getAccountBalance = Some (OneApi_getAccountBalance w),
      getUsageStats = Some (OneApi_getUsageStats w),
      autoDetectAccount = Some (oneapi_autoDetectAccount w),
      getOrCreateAccessToken = True,
      getApiTokens = True,
      createApiToken = True,
      updateApiToken = True,
      deleteApiToken = True,
      getAvailableModels = True,
      getModelPricing = True,
      getSiteStatus = Some (OneApi_getSiteStatus w)\<rparr>"

section \<open>The Cubence adapter (\<open>adapters/CubenceAdapter.ts\<close>)\<close>

definition Cubence_metadata :: SiteAdapterMetadata where
  "Cubence_metadata =
     \<lparr>adapterId = ''cubence'',
      adapterName = ''Cubence'',
      version = ''1.0.0'',
      supportedSiteTypes = [''cubence''],
      capabilities = [AUTO_DETECT, BALANCE, USAGE_STATS],
      balance = Some \<lparr>balance_rawUnit = ''micro_usd'', balance_conversionFactor = 1000000\<rparr>\<rparr>"

definition Cubence_kind_mismatch :: string where
  "Cubence_kind_mismatch =
     ''Cubence '' @ zh_adapter_requires @ '' cookie '' @ zh_auth @ zh_browser_login"

definition Cubence_rawUnit :: string where
  "Cubence_rawUnit = (case balance Cubence_metadata of Some b \<Rightarrow> balance_rawUnit b | None \<Rightarrow> [])"

definition Cubence_conversionFactor :: rat where
  "Cubence_conversionFactor =
     (case balance Cubence_metadata of Some b \<Rightarrow> balance_conversionFactor b | None \<Rightarrow> 0)"

text \<open>
  \<open>fetchJson\<close>: the direct fetch first; when it rejects, is not \<open>ok\<close> or does not parse,
  the request goes through the background page. It is given the two replies of the
  endpoint it reads.
\<close>

definition fetchJson ::
  "world \<Rightarrow> (string \<Rightarrow> 'a fetch_reply) \<Rightarrow> (string \<Rightarrow> string \<Rightarrow> 'a message_reply)
    \<Rightarrow> string \<Rightarrow> string \<Rightarrow> 'a promise" where
  "fetchJson w direct page url path =
     (let baseUrl = normalizeSiteUrl url in
      case url_resolve w path baseUrl of
        Inl e \<Rightarrow> (Inl e, [])
      | Inr fetchUrl \<Rightarrow>
          (case (case direct fetchUrl of
                   Response sc (JsonValue v) \<Rightarrow> if response_ok sc then Some v else None
                 | _ \<Rightarrow> None) of
             Some v \<Rightarrow> (Inr v, [DirectFetch fetchUrl])
           | None \<Rightarrow>
               (case page baseUrl fetchUrl of
                  MessageRejects e \<Rightarrow> (Inl e, [DirectFetch fetchUrl, PageFetchJson baseUrl fetchUrl])
                | NoResponse \<Rightarrow>
                    (Inl (Error (zh_get @ '' '' @ path @ '' '' @ zh_failed)),
                     [DirectFetch fetchUrl, PageFetchJson baseUrl fetchUrl])
                | Failure err \<Rightarrow>
                    (Inl (Error (case err of
                                   Some m \<Rightarrow> if m = [] then zh_get @ '' '' @ path @ '' '' @ zh_failed else m
                                 | None \<Rightarrow> zh_get @ '' '' @ path @ '' '' @ zh_failed)),
                     [DirectFetch fetchUrl, PageFetchJson baseUrl fetchUrl])
                | Success v \<Rightarrow> (Inr v, [DirectFetch fetchUrl, PageFetchJson baseUrl fetchUrl]))))"

definition fetchOverview :: "world \<Rightarrow> string \<Rightarrow> CubenceOverviewResponse promise" where
  "fetchOverview w url =
     fetchJson w (direct_overview w) (page_overview w) url ''/api/v1/dashboard/overview''"

definition fetchAnalyticsToday :: "world \<Rightarrow> string \<Rightarrow> CubenceAnalyticsTodayResponse promise" where
  "fetchAnalyticsToday w url =
     fetchJson w (direct_analytics w) (page_analytics w) url ''/api/v1/analytics/today''"

text \<open>\<open>overview.data.user?.username\<close>, when it is a non-empty text.\<close>

definition overview_username :: "CubenceOverviewData \<Rightarrow> string option" where
  "overview_username d =
     (case overview_user d of
        None \<Rightarrow> None
      | Some u \<Rightarrow> (case user_username u of
                    None \<Rightarrow> None
                  | Some n \<Rightarrow> if n = [] then None else Some n))"

definition Cubence_validateConnection :: "world \<Rightarrow> SiteCredentials \<Rightarrow> ValidateResult promise" where
  "Cubence_validateConnection w credentials =
     (if kind (auth credentials) \<noteq> ''cookie''
        then (Inr \<lparr>ok = False, message = Some Cubence_kind_mismatch, details = None\<rparr>, [])
      else
        (case fetchOverview w (siteUrl credentials) of
           (Inl e, reqs) \<Rightarrow> (Inr \<lparr>ok = False, message = Some (error_message e), details = None\<rparr>, reqs)
         | (Inr overview, reqs) \<Rightarrow>
             (case (if overview_success overview then overview_data overview else None) of
                None \<Rightarrow>
                  (Inr \<lparr>ok = False, message = Some (''Cubence overview '' @ zh_response_malformed),
                        details = None\<rparr>, reqs)
              | Some d \<Rightarrow>
                  (case overview_username d of
                     None \<Rightarrow> (Inr \<lparr>ok = False, message = Some zh_no_username_cookie, details = None\<rparr>, reqs)
                   | Some n \<Rightarrow>
                       (Inr \<lparr>ok = True, message = None,
                             details = Some \<lparr>details_username = Some n, details_user_username = None\<rparr>\<rparr>,
                        reqs)))))"

definition Cubence_autoDetectAccount :: "world \<Rightarrow> string \<Rightarrow> AutoDetectResult promise" where
  "Cubence_autoDetectAccount w url =
     (if trim url = []
        then (Inr \<lparr>success = False, data = None, error_text = Some zh_site_url_empty,
                   detailedError = None\<rparr>, [])
      else
        (case fetchOverview w (trim url) of
           (Inl e, reqs) \<Rightarrow>
             (Inr \<lparr>success = False, data = None, error_text = Some (error_message e),
                   detailedError = None\<rparr>, reqs)
         | (Inr overview, reqs) \<Rightarrow>
             (case (if overview_success overview then overview_data overview else None) of
                None \<Rightarrow>
                  (Inr \<lparr>success = False, data = None,
                        error_text = Some (''Cubence overview '' @ zh_response_malformed),
                        detailedError = None\<rparr>, reqs)
              | Some d \<Rightarrow>
                  (case overview_username d of
                     None \<Rightarrow>
                       (Inr \<lparr>success = False, data = None, error_text = Some zh_no_username_cookie,
                             detailedError = None\<rparr>, reqs)
                   | Some n \<Rightarrow>
                       (Inr \<lparr>success = True,
                             data = Some \<lparr>username = n, accessToken = [], userId = [],
                                          exchangeRate = None\<rparr>,
                             error_text = None, detailedError = None\<rparr>, reqs)))))"

text \<open>\<open>Math.round\<close>: to the nearest integer, a half upwards.\<close>

definition Math_round :: "rat \<Rightarrow> rat" where
  "Math_round x = of_int \<lfloor>x + 1 / 2\<rfloor>"

definition Cubence_getAccountBalance :: "world \<Rightarrow> SiteCredentials \<Rightarrow> BalanceInfo promise" where
  "Cubence_getAccountBalance w credentials =
     (if kind (auth credentials) \<noteq> ''cookie''
        then (Inl (Error Cubence_kind_mismatch), [])
      else
        (case fetchOverview w (siteUrl credentials) of
           (Inl e, reqs) \<Rightarrow> (Inl e, reqs)
         | (Inr overview, reqs) \<Rightarrow>
             (case (if overview_success overview then overview_data overview else None) of
                None \<Rightarrow> (Inl (Error (''Cubence overview '' @ zh_response_malformed)), reqs)
              | Some d \<Rightarrow>
                  (let raw = (case overview_balance d of Some b \<Rightarrow> total_balance b | None \<Rightarrow> None);
                       usd = (case overview_balance d of Some b \<Rightarrow> total_balance_dollar b | None \<Rightarrow> None);
                       rawBalance' =
                         (case raw of
                            Some r \<Rightarrow> r
                          | None \<Rightarrow> (case usd of
                                       Some u \<Rightarrow> Math_round (u * Cubence_conversionFactor)
                                     | None \<Rightarrow> 0))
                   in (Inr \<lparr>rawBalance = rawBalance',
                            rawUnit = Cubence_rawUnit,
                            conversionFactor = Some Cubence_conversionFactor,
                            balanceUSD = Some (rawBalance' / Cubence_conversionFactor)\<rparr>, reqs)))))"

text \<open>\<open>String(code)\<close> of the analytics reply.\<close>

definition String_code :: "world \<Rightarrow> analytics_code option \<Rightarrow> string" where
  "String_code w code =
     (case code of
        None \<Rightarrow> ''undefined''
      | Some (CodeNumber n) \<Rightarrow> number_toString w n
      | Some (CodeString s) \<Rightarrow> s)"

definition Cubence_getUsageStats ::
  "world \<Rightarrow> SiteCredentials \<Rightarrow> TimeRange \<Rightarrow> UsageStats promise" where
  "Cubence_getUsageStats w credentials timeRange =
     (if kind (auth credentials) \<noteq> ''cookie''
        then (Inl (Error Cubence_kind_mismatch), [])
      else
        (case fetchAnalyticsToday w (siteUrl credentials) of
           (Inl e, reqs) \<Rightarrow> (Inl e, reqs)
         | (Inr today_reply, reqs) \<Rightarrow>
             (let code = analytics_code today_reply;
                  code_ok = (code = Some (CodeNumber 200) \<or> code = Some (CodeString ''200'')
                             \<or> code = None)
              in case (if code_ok then analytics_data today_reply else None) of
                   None \<Rightarrow>
                     (Inl (Error (''Cubence analytics/today '' @ zh_response_abnormal @ '' (code=''
                                  @ String_code w code @ '')''
                                  @ (case analytics_message today_reply of
                                       None \<Rightarrow> []
                                     | Some m \<Rightarrow> if m = [] then [] else '': '' @ m))), reqs)
                 | Some d \<Rightarrow>
                     (Inr \<lparr>rawConsumption = (case today_consumed_quota d of Some v \<Rightarrow> v | None \<Rightarrow> 0),
                           usage_rawUnit = Cubence_rawUnit,
                           usage_conversionFactor = Some Cubence_conversionFactor,
                           promptTokens = Some (case today_tokens d of Some v \<Rightarrow> v | None \<Rightarrow> 0),
                           completionTokens = Some 0,
                           requestCount = Some (case today_request_count d of Some v \<Rightarrow> v | None \<Rightarrow> 0)\<rparr>,
                      reqs))))"

text \<open>Host matching only: no request. A text that is not a URL gives \<open>null\<close>.\<close>

definition Cubence_getSiteStatus :: "world \<Rightarrow> string \<Rightarrow> SiteStatusInfo option promise" where
  "Cubence_getSiteStatus w url =
     (case url_hostname w url of
        Inl e \<Rightarrow> (Inr None, [])
      | Inr hostname \<Rightarrow>
          (let host = toLowerCase hostname in
           if host = ''cubence.com'' \<or> suffix ''.cubence.com'' host
             then (Inr (Some (Detected host)), [])
           else (Inr None, [])))"

definition CubenceAdapter :: "world \<Rightarrow> ISiteAdapter" where
  "CubenceAdapter w =
     \<lparr>metadata = Cubence_metadata,
      validateConnection = Cubence_validateConnection w,
      getAccountBalance = Some (Cubence_getAccountBalance w),
      getUsageStats = Some (Cubence_getUsageStats w),
      autoDetectAccount = Some (Cubence_autoDetectAccount w),
      getOrCreateAccessToken = False,
      getApiTokens = False,
      createApiToken = False,
      updateApiToken = False,
      deleteApiToken = False,
      getAvailableModels = False,
      getModelPricing = False,
      getSiteStatus = Some (Cubence_getSiteStatus w)\<rparr>"

subsection \<open>The registry with its built-in adapters\<close>

definition emptyRegistry :: SiteAdapterRegistry where
  "emptyRegistry = \<lparr>adaptersById = [], adaptersBySiteType = [], builtInsRegistered = False\<rparr>"

text \<open>
  \<open>ensureBuiltInAdaptersRegistered\<close>: once, the OneApi adapter and then the Cubence adapter; a
  registration that throws ends the call with the registry as it then is.
\<close>

definition ensureBuiltInAdaptersRegistered ::
  "world \<Rightarrow> SiteAdapterRegistry \<Rightarrow> js_error option \<times> SiteAdapterRegistry" where
  "ensureBuiltInAdaptersRegistered w reg =
     (if builtInsRegistered reg then (None, reg)
      else
        (case registerAdapter (reg\<lparr>builtInsRegistered := True\<rparr>) (OneApiAdapter w) of
           (Some e, reg1) \<Rightarrow> (Some e, reg1)
         | (None, reg1) \<Rightarrow> registerAdapter reg1 (CubenceAdapter w)))"

text \<open>\<open>SiteAdapterRegistry.getInstance()\<close> on first use.\<close>

definition getInstance :: "world \<Rightarrow> SiteAdapterRegistry" where
  "getInstance w = snd (ensureBuiltInAdaptersRegistered w emptyRegistry)"

section \<open>Stored accounts (\<open>types\<close>, \<open>services/accountStorage.ts\<close>)\<close>

datatype id_value = IdNumber jsnum | IdString string

record AccountInfo =
  info_id :: "id_value option"
  access_token :: "string option"
  api_key :: "string option"
  info_username :: "string option"
  quota :: rat
  today_prompt_tokens :: rat
  today_completion_tokens :: rat
  today_quota_consumption :: rat
  today_requests_count :: rat
  extra :: "adapter_config option"

text \<open>
  \<open>AccountFields\<close> is \<open>Omit<SiteAccount, "id" | "created_at" | "updated_at">\<close>, what
  \<open>addAccount\<close> is given; \<open>SiteAccount\<close> adds the three fields.
\<close>

record AccountFields =
  emoji :: string
  site_name :: string
  site_url :: string
  site_type :: "string option"
  adapter_config :: "adapter_config option"
  health_status :: SiteHealthStatus
  exchange_rate :: jsnum
  account_info :: AccountInfo
  last_sync_time :: int

record SiteAccount = AccountFields +
  account_id :: string
  updated_at :: int
  created_at :: int

text \<open>
  \<open>Partial<Omit<SiteAccount, "id" | "created_at">>\<close>, the argument of \<open>updateAccount\<close>:
  \<open>None\<close> is a field the update does not have.
\<close>

record AccountUpdate =
  upd_emoji :: "string option"
  upd_site_name :: "string option"
  upd_site_url :: "string option"
  upd_site_type :: "string option"
  upd_adapter_config :: "adapter_config option"
  upd_health_status :: "SiteHealthStatus option"
  upd_exchange_rate :: "jsnum option"
  upd_account_info :: "AccountInfo option"
  upd_last_sync_time :: "int option"
  upd_updated_at :: "int option"

definition no_update :: AccountUpdate where
  "no_update =
     \<lparr>upd_emoji = None, upd_site_name = None, upd_site_url = None, upd_site_type = None,
      upd_adapter_config = None, upd_health_status = None, upd_exchange_rate = None,
      upd_account_info = None, upd_last_sync_time = None, upd_updated_at = None\<rparr>"

text \<open>
  The storage holds the list of accounts (none before the first save). Reading it can fail,
  and then the service goes on with no accounts; writing it can throw.
\<close>

definition getStorageConfig :: "world \<Rightarrow> SiteAccount list \<Rightarrow> SiteAccount list" where
  "getStorageConfig w store = (if storage_get_fails w then [] else store)"

definition or_else :: "'a option \<Rightarrow> 'a \<Rightarrow> 'a" where
  "or_else x d = (case x of Some v \<Rightarrow> v | None \<Rightarrow> d)"

text \<open>The defaults \<open>getAllAccounts\<close> fills in for accounts stored by an older version.\<close>

definition with_defaults :: "SiteAccount \<Rightarrow> SiteAccount" where
  "with_defaults account =
     account\<lparr>site_type := Some (or_else (site_type account) ''one-api''),
             adapter_config := Some (or_else (adapter_config account) [])\<rparr>"

definition getAllAccounts :: "world \<Rightarrow> SiteAccount list \<Rightarrow> SiteAccount list" where
  "getAllAccounts w store = map with_defaults (getStorageConfig w store)"

definition getAccountById :: "world \<Rightarrow> SiteAccount list \<Rightarrow> string \<Rightarrow> SiteAccount option" where
  "getAccountById w store aid = List.find (\<lambda>account. account_id account = aid) (getAllAccounts w store)"

definition saveAccounts ::
  "world \<Rightarrow> SiteAccount list \<Rightarrow> SiteAccount list \<Rightarrow> js_error option \<times> SiteAccount list" where
  "saveAccounts w store accounts =
     (case storage_set_fails w of Some e \<Rightarrow> (Some e, store) | None \<Rightarrow> (None, accounts))"

text \<open>\<open>xs.findIndex(p)\<close>, with \<open>None\<close> for \<open>-1\<close>.\<close>

fun findIndex :: "('a \<Rightarrow> bool) \<Rightarrow> 'a list \<Rightarrow> nat option" where
  "findIndex p [] = None"
| "findIndex p (x # xs) = (if p x then Some 0 else map_option Suc (findIndex p xs))"

text \<open>\<open>{...account, ...updates, updated_at: Date.now()}\<close>.\<close>

definition apply_updates :: "SiteAccount \<Rightarrow> AccountUpdate \<Rightarrow> int \<Rightarrow> SiteAccount" where
  "apply_updates account updates t =
     account\<lparr>emoji := or_else (upd_emoji updates) (emoji account),
             site_name := or_else (upd_site_name updates) (site_name account),
             site_url := or_else (upd_site_url updates) (site_url account),
             site_type := (case upd_site_type updates of Some v \<Rightarrow> Some v | None \<Rightarrow> site_type account),
             adapter_config := (case upd_adapter_config updates of
                                  Some v \<Rightarrow> Some v
                                | None \<Rightarrow> adapter_config account),
             health_status := or_else (upd_health_status updates) (health_status account),
             exchange_rate := or_else (upd_exchange_rate updates) (exchange_rate account),
             account_info := or_else (upd_account_info updates) (account_info account),
             last_sync_time := or_else (upd_last_sync_time updates) (last_sync_time account),
             updated_at := t\<rparr>"

text \<open>\<open>updateAccount\<close> catches everything and answers \<open>false\<close>.\<close>

definition updateAccount ::
  "world \<Rightarrow> SiteAccount list \<Rightarrow> string \<Rightarrow> AccountUpdate \<Rightarrow> bool \<times> SiteAccount list" where
  "updateAccount w store aid updates =
     (let accounts = getAllAccounts w store in
      case findIndex (\<lambda>account. account_id account = aid) accounts of
        None \<Rightarrow> (False, store)
      | Some i \<Rightarrow>
          (case saveAccounts w store (accounts[i := apply_updates (accounts ! i) updates (now w)]) of
             (Some e, store') \<Rightarrow> (False, store')
           | (None, store') \<Rightarrow> (True, store')))"


section \<open>The account manager (\<open>services/AccountManager.ts\<close>)\<close>

record ValidationData = AutoDetectData +
  siteType :: "string option"




text \<open>\<open>s || d\<close> on an optional text: a missing or empty text gives \<open>d\<close>.\<close>

definition text_or :: "string option \<Rightarrow> string \<Rightarrow> string" where
  "text_or s d = (case s of Some t \<Rightarrow> if t = [] then d else t | None \<Rightarrow> d)"











text \<open>
  The balance and the usage of the account, fetched together; an adapter without the
  method gives \<open>null\<close>.
\<close>

definition fetchBalanceAndUsage ::
  "world \<Rightarrow> ISiteAdapter \<Rightarrow> SiteCredentials \<Rightarrow> (BalanceInfo option \<times> UsageStats option) promise" where
  "fetchBalanceAndUsage w adapter credentials =
     promise_all (usage_settles_first w)
       (case getAccountBalance adapter of
          Some f \<Rightarrow> (case f credentials of (Inl e, reqs) \<Rightarrow> (Inl e, reqs) | (Inr b, reqs) \<Rightarrow> (Inr (Some b), reqs))
        | None \<Rightarrow> (Inr None, []))
       (case getUsageStats adapter of
          Some f \<Rightarrow> (case f credentials (today w) of
                      (Inl e, reqs) \<Rightarrow> (Inl e, reqs)
                    | (Inr u, reqs) \<Rightarrow> (Inr (Some u), reqs))
        | None \<Rightarrow> (Inr None, []))"





definition getAccountSiteType :: "SiteAccount \<Rightarrow> string" where
  "getAccountSiteType account = toLowerCase (text_or (site_type account) ''one-api'')"

definition buildCredentialsFromStoredAccount :: "SiteAccount \<Rightarrow> js_error + SiteCredentials" where
  "buildCredentialsFromStoredAccount account =
     (if getAccountSiteType account = ''cubence'' then
        Inr \<lparr>siteUrl = site_url account, auth = CookieAuth None,
             adapterConfig = adapter_config account\<rparr>
      else
        (case (case api_key (account_info account) of
                 Some k \<Rightarrow> if k = [] then None else Some k
               | None \<Rightarrow> None) of
           Some key \<Rightarrow> Inr \<lparr>siteUrl = site_url account, auth = ApiKeyAuth key, adapterConfig = None\<rparr>
         | None \<Rightarrow>
             (let uid = (case info_id (account_info account) of
                           None \<Rightarrow> NaN
                         | Some (IdNumber n) \<Rightarrow> n
                         | Some (IdString s) \<Rightarrow> Number s);
                  token = text_or (access_token (account_info account)) []
              in if token = [] \<or> \<not> isFinite uid then Inl (Error zh_account_lacks_credentials)
                 else Inr \<lparr>siteUrl = site_url account, auth = OneApiToken uid token,
                          adapterConfig = adapter_config account\<rparr>)))"

text \<open>
  The \<open>try\<close> block of \<open>refreshAccount\<close> up to its write: it throws, or reaches the update it
  writes.
\<close>

definition refreshAccount_try ::
  "world \<Rightarrow> SiteAdapterRegistry \<Rightarrow> SiteAccount list \<Rightarrow> string \<Rightarrow> AccountUpdate promise" where
  "refreshAccount_try w reg store aid =
     (case getAccountById w store aid of
        None \<Rightarrow> (Inl (Error (zh_account @ '' '' @ aid @ '' '' @ zh_not_exist)), [])
      | Some account \<Rightarrow>
          (case getAdapter reg (getAccountSiteType account) of
             None \<Rightarrow> (Inl (Error (zh_unsupported_site_type @ '': '' @ getAccountSiteType account)), [])
           | Some adapter \<Rightarrow>
               (case buildCredentialsFromStoredAccount account of
                  Inl e \<Rightarrow> (Inl e, [])
                | Inr credentials \<Rightarrow>
                    (case fetchBalanceAndUsage w adapter credentials of
                       (Inl e, reqs) \<Rightarrow> (Inl e, reqs)
                     | (Inr (fetched_balance, usage), reqs) \<Rightarrow>
                         (let info0 = account_info account;
                              info1 = (case fetched_balance of
                                         Some b \<Rightarrow> info0\<lparr>quota := rawBalance b\<rparr>
                                       | None \<Rightarrow> info0);
                              nextInfo =
                                (case usage of
                                   Some u \<Rightarrow>
                                     info1\<lparr>today_quota_consumption := rawConsumption u,
                                           today_prompt_tokens := or_zero (promptTokens u),
                                           today_completion_tokens := or_zero (completionTokens u),
                                           today_requests_count := or_zero (requestCount u)\<rparr>
                                 | None \<Rightarrow> info1)
                          in (Inr (no_update\<lparr>upd_health_status := Some healthy,
                                             upd_last_sync_time := Some (now w),
                                             upd_account_info := Some nextInfo\<rparr>), reqs))))))"

text \<open>
  \<open>refreshAccount\<close>: the answer, the requests, and the storage afterwards. The answer of
  \<open>updateAccount\<close> is not read in either branch.
\<close>

definition refreshAccount ::
  "world \<Rightarrow> SiteAdapterRegistry \<Rightarrow> SiteAccount list \<Rightarrow> string
    \<Rightarrow> (bool \<times> request list) \<times> SiteAccount list" where
  "refreshAccount w reg store aid =
     (case refreshAccount_try w reg store aid of
        (Inr updates, reqs) \<Rightarrow> ((True, reqs), snd (updateAccount w store aid updates))
      | (Inl e, reqs) \<Rightarrow>
          ((False, reqs),
           snd (updateAccount w store aid
                  (no_update\<lparr>upd_health_status := Some (status (determineHealthStatus e)),
                             upd_last_sync_time := Some (now w)\<rparr>))))"

section \<open>Example adapters\<close>

text \<open>
  An adapter with no optional method and no capability, whose validation succeeds, and the
  same adapter with a \<open>getSiteStatus\<close>. The worked examples below start from them.
\<close>

definition bareAdapter :: "string \<Rightarrow> string list \<Rightarrow> ISiteAdapter" where
  "bareAdapter aid types =
     \<lparr>metadata = \<lparr>adapterId = aid, adapterName = aid, version = ''1.0.0'',
                  supportedSiteTypes = types, capabilities = [], balance = None\<rparr>,
      validateConnection = (\<lambda>c. (Inr \<lparr>ok = True, message = None, details = None\<rparr>, [])),
      getAccountBalance = None,
      getUsageStats = None,
      autoDetectAccount = None,
      getOrCreateAccessToken = False,
      getApiTokens = False,
      createApiToken = False,
      updateApiToken = False,
      deleteApiToken = False,
      getAvailableModels = False,
      getModelPricing = False,
      getSiteStatus = None\<rparr>"

definition probingAdapter ::
  "string \<Rightarrow> (string \<Rightarrow> SiteStatusInfo option promise) \<Rightarrow> ISiteAdapter" where
  "probingAdapter aid probe = (bareAdapter aid [aid])\<lparr>getSiteStatus := Some probe\<rparr>"


text \<open>Four adapters registered in turn, for the worked example of the detection.\<close>

definition fourAdapters :: SiteAdapterRegistry where
  "fourAdapters =
     snd (registerAdapter
       (snd (registerAdapter
         (snd (registerAdapter
           (snd (registerAdapter emptyRegistry
              (probingAdapter ''a'' (\<lambda>u. (Inl (TypeError ''Failed to fetch''), [GetStatus u])))))
           (bareAdapter ''b'' [''b''])))
         (probingAdapter ''c'' (\<lambda>u. (Inr (Some (Detected u)), [DirectFetch u])))))
       (probingAdapter ''d'' (\<lambda>u. (Inr (Some (Detected u)), [GetStatus u]))))"

section \<open>Example environments\<close>

text \<open>
  An environment in which every site is unreachable (each \<open>fetch\<close> rejects as a browser
  does, the background page gives no response) and the storage works; the other example
  environments change one reply of it.
\<close>

definition offlineWorld :: world where
  "offlineWorld =
     \<lparr>now = 1700000000000,
      today = \<lparr>range_start = 1699920000, range_end = 1700006399\<rparr>,
      fresh_id = ''account_1700000000000_k3x9q2m1z'',
      storage_get_fails = False,
      storage_set_fails = None,
      usage_settles_first = False,
      number_toString = (\<lambda>r. show_nat (nat \<lfloor>r\<rfloor>)),
      url_resolve = (\<lambda>path base. Inr (base @ path)),
      url_hostname = (\<lambda>u. Inl (TypeError ''Invalid URL'')),
      http_user_self = (\<lambda>b u t. FetchRejects (TypeError ''Failed to fetch'')),
      http_log_self = (\<lambda>b u t p s e. FetchRejects (TypeError ''Failed to fetch'')),
      http_status = (\<lambda>b. FetchRejects (TypeError ''Failed to fetch'')),
      direct_overview = (\<lambda>u. FetchRejects (TypeError ''Failed to fetch'')),
      page_overview = (\<lambda>b u. NoResponse),
      direct_analytics = (\<lambda>u. FetchRejects (TypeError ''Failed to fetch'')),
      page_analytics = (\<lambda>b u. NoResponse),
      oneapi_autoDetectAccount =
        (\<lambda>u. (Inr \<lparr>success = False, data = None, error_text = Some ''not logged in'',
                     detailedError = None\<rparr>, [])),
      analyzeAutoDetectError =
        (\<lambda>x. AutoDetectError ''unknown'' (case x of Inl s \<Rightarrow> s | Inr e \<Rightarrow> error_message e))\<rparr>"





definition tokenCredentials :: SiteCredentials where
  "tokenCredentials =
     \<lparr>siteUrl = ''https://api.test'', auth = OneApiToken (Num 7) ''tok'', adapterConfig = None\<rparr>"

definition cookieCredentials :: SiteCredentials where
  "cookieCredentials =
     \<lparr>siteUrl = ''https://cubence.com'', auth = CookieAuth None, adapterConfig = None\<rparr>"







section \<open>Example accounts\<close>

text \<open>
  A stored OneApi account with a known balance, and an environment in which the site
  answers \<open>/api/user/self\<close> with the HTTP status given.
\<close>

definition storedAccount :: SiteAccount where
  "storedAccount =
     \<lparr>emoji = [],
      site_name = ''Demo'',
      site_url = ''https://api.test'',
      site_type = Some ''one-api'',
      adapter_config = Some [],
      health_status = healthy,
      exchange_rate = Num (36 / 5),
      account_info =
        \<lparr>info_id = Some (IdNumber (Num 7)), access_token = Some ''tok'', api_key = None,
         info_username = Some ''alice'', quota = 1000000, today_prompt_tokens = 5,
         today_completion_tokens = 7, today_quota_consumption = 3, today_requests_count = 1,
         extra = None\<rparr>,
      last_sync_time = 1690000000000,
      account_id = ''account_1'',
      updated_at = 1690000000000,
      created_at = 1680000000000\<rparr>"

definition httpStatusWorld :: "nat \<Rightarrow> world" where
  "httpStatusWorld c =
     offlineWorld\<lparr>http_user_self :=
       (\<lambda>b u t. Response c (InvalidJson (SyntaxError ''Unexpected token < in JSON'')))\<rparr>"



section \<open>The properties as the specification words them\<close>




text \<open>
  A probe matches when the adapter has \<open>getSiteStatus\<close> and it resolves to a status; the
  adapters probed are those up to and including the first match.
\<close>

definition probeMatches :: "string \<Rightarrow> ISiteAdapter \<Rightarrow> bool" where
  "probeMatches url a =
     (case getSiteStatus a of
        None \<Rightarrow> False
      | Some probe \<Rightarrow> (case fst (probe url) of Inr (Some st) \<Rightarrow> True | _ \<Rightarrow> False))"

definition probeRequests :: "string \<Rightarrow> ISiteAdapter \<Rightarrow> request list" where
  "probeRequests url a = (case getSiteStatus a of None \<Rightarrow> [] | Some probe \<Rightarrow> snd (probe url))"

definition probed :: "string \<Rightarrow> ISiteAdapter list \<Rightarrow> ISiteAdapter list" where
  "probed url as =
     takeWhile (\<lambda>a. \<not> probeMatches url a) as @ take 1 (dropWhile (\<lambda>a. \<not> probeMatches url a) as)"










text \<open>
  The update \<open>refreshAccount\<close> writes when its \<open>try\<close> block throws \<open>e\<close>: the health status
  and the time of the synchronisation, nothing else.
\<close>

definition failureUpdate :: "world \<Rightarrow> js_error \<Rightarrow> AccountUpdate" where
  "failureUpdate w e =
     no_update\<lparr>upd_health_status := Some (status (determineHealthStatus e)),
               upd_last_sync_time := Some (now w)\<rparr>"

text \<open>
  The classes of errors as the specification words them: a \<open>TypeError\<close> whose message
  mentions \<open>fetch\<close> is the network failure, an \<open>ApiError\<close> with a status code (not zero) is
  the HTTP error.
\<close>

fun classify :: "js_error \<Rightarrow> SiteHealthStatus" where
  "classify (TypeError m) = (if str_includes m ''fetch'' then error else unknown)"
| "classify (ApiError m (Some c) ep) = (if c \<noteq> 0 then warning else unknown)"
| "classify e = unknown"


section \<open>Facts used by several properties\<close>

lemma detectLoop_result:
  "detectLoop url as =
     (Inr (map_option (\<lambda>a. adapterId (metadata a)) (List.find (probeMatches url) as)),
      concat (map (probeRequests url) (probed url as)))"
proof (induction as)
  case Nil
  then show ?case by (simp add: probed_def)
next
  case (Cons a as)
  show ?case
  proof (cases "getSiteStatus a")
    case None
    then show ?thesis
      using Cons by (simp add: probeMatches_def probeRequests_def probed_def)
  next
    case (Some probe)
    obtain r reqs where p: "probe url = (r, reqs)"
      by (cases "probe url")
    show ?thesis
      using Cons Some p
      by (cases r) (auto simp: probeMatches_def probeRequests_def probed_def split: option.splits)
  qed
qed



lemmas registry_eval =
  registerAdapter_def assertCapabilitiesImplemented_def missingTokenMethods_def has_def
  normalizeSiteType_def trim_def trimStart_def trimEnd_def isWhiteSpace_def toLowerCase_def
  toLowerCase_char_def emptyRegistry_def bareAdapter_def probingAdapter_def Let_def

lemmas string_eval =
  trim_def trimStart_def trimEnd_def isWhiteSpace_def toLowerCase_def toLowerCase_char_def
  normalizeSiteType_def normalizeSiteUrl_def

lemma builtin_registry:
  "getInstance w =
     \<lparr>adaptersById = [(''one-api'', OneApiAdapter w), (''cubence'', CubenceAdapter w)],
      adaptersBySiteType =
        [(''one-api'', OneApiAdapter w), (''new-api'', OneApiAdapter w),
         (''veloera'', OneApiAdapter w), (''one-hub'', OneApiAdapter w),
         (''done-hub'', OneApiAdapter w), (''cubence'', CubenceAdapter w)],
      builtInsRegistered = True\<rparr>"
proof -
  have o: "metadata (OneApiAdapter w) = OneApi_metadata"
    "assertCapabilitiesImplemented (OneApiAdapter w) = None"
    by (simp_all add: OneApiAdapter_def assertCapabilitiesImplemented_def OneApi_metadata_def
          missingTokenMethods_def)
  have c: "metadata (CubenceAdapter w) = Cubence_metadata"
    "assertCapabilitiesImplemented (CubenceAdapter w) = None"
    by (simp_all add: CubenceAdapter_def assertCapabilitiesImplemented_def Cubence_metadata_def
          missingTokenMethods_def)
  have keys: "map normalizeSiteType [''one-api'', ''new-api'', ''veloera'', ''one-hub'', ''done-hub'', ''cubence'']
      = [''one-api'', ''new-api'', ''veloera'', ''one-hub'', ''done-hub'', ''cubence'']"
    by (simp add: normalizeSiteType_def trim_def trimStart_def trimEnd_def isWhiteSpace_def
          toLowerCase_def toLowerCase_char_def)
  show ?thesis
    using keys
    by (simp add: getInstance_def ensureBuiltInAdaptersRegistered_def registerAdapter_def o c has_def
          emptyRegistry_def OneApi_metadata_def Cubence_metadata_def Let_def)
qed

lemma findIndex_Some:
  "findIndex p xs = Some i \<Longrightarrow> i < length xs \<and> p (xs ! i) \<and> List.find p xs = Some (xs ! i)"
proof (induction xs arbitrary: i)
  case Nil
  then show ?case by simp
next
  case (Cons x xs)
  then show ?case
    by (cases "p x") auto
qed

lemma findIndex_None: "findIndex p xs = None \<Longrightarrow> List.find p xs = None"
  by (induction xs) (auto split: if_splits)

lemma find_update_first:
  "findIndex p xs = Some i \<Longrightarrow> p y \<Longrightarrow> List.find p (xs[i := y]) = Some y"
proof (induction xs arbitrary: i)
  case Nil
  then show ?case by simp
next
  case (Cons x xs)
  then show ?case
    by (cases "p x") auto
qed

lemma with_defaults_idem: "with_defaults (with_defaults a) = with_defaults a"
  by (simp add: with_defaults_def or_else_def)

lemma with_defaults_fixed_iff:
  "(with_defaults a = a) = (site_type a \<noteq> None \<and> adapter_config a \<noteq> None)"
proof
  assume h: "with_defaults a = a"
  have "site_type (with_defaults a) \<noteq> None" "adapter_config (with_defaults a) \<noteq> None"
    by (simp_all add: with_defaults_def)
  then show "site_type a \<noteq> None \<and> adapter_config a \<noteq> None"
    unfolding h by simp
next
  assume "site_type a \<noteq> None \<and> adapter_config a \<noteq> None"
  then show "with_defaults a = a"
    by (auto simp: with_defaults_def or_else_def)
qed

lemma with_defaults_fields:
  "account_info (with_defaults a) = account_info a" "account_id (with_defaults a) = account_id a"
  by (simp_all add: with_defaults_def)








section \<open>Registration (C1)\<close>
















section \<open>A refresh that fails keeps the stored data (C2)\<close>

lemma getAccountById_stored:
  "getAccountById w store aid = Some account \<Longrightarrow>
     \<not> storage_get_fails w \<and> with_defaults account = account \<and> account_id account = aid"
  by (cases "storage_get_fails w")
     (auto simp: getAccountById_def getAllAccounts_def getStorageConfig_def find_Some_iff
        with_defaults_idem with_defaults_fields)

lemma failure_update_applied:
  "apply_updates a (failureUpdate w e) t =
     a\<lparr>health_status := status (determineHealthStatus e), last_sync_time := now w, updated_at := t\<rparr>"
  by (simp add: apply_updates_def failureUpdate_def no_update_def or_else_def)

lemma updateAccount_failureUpdate:
  assumes "getAccountById w store aid = Some account"
  shows "snd (updateAccount w store aid (failureUpdate w e)) =
     (if storage_set_fails w = None
      then (getAllAccounts w store)
             [the (findIndex (\<lambda>a. account_id a = aid) (getAllAccounts w store)) :=
                account\<lparr>health_status := status (determineHealthStatus e),
                        last_sync_time := now w, updated_at := now w\<rparr>]
      else store)"
proof -
  obtain i where i: "findIndex (\<lambda>a. account_id a = aid) (getAllAccounts w store) = Some i"
    using assms findIndex_None[of "\<lambda>a. account_id a = aid" "getAllAccounts w store"]
    by (cases "findIndex (\<lambda>a. account_id a = aid) (getAllAccounts w store)")
       (auto simp: getAccountById_def)
  have "getAllAccounts w store ! i = account"
    using findIndex_Some[OF i] assms by (simp add: getAccountById_def)
  then show ?thesis
    using i by (auto simp: updateAccount_def saveAccounts_def failure_update_applied Let_def
                     split: option.splits)
qed

lemma failed_refresh_store:
  assumes "getAccountById w store aid = Some account"
  shows "map account_info (getAllAccounts w (snd (updateAccount w store aid (failureUpdate w e)))) =
           map account_info (getAllAccounts w store)"
    and "storage_set_fails w = None \<Longrightarrow>
           getAccountById w (snd (updateAccount w store aid (failureUpdate w e))) aid =
             Some (account\<lparr>health_status := status (determineHealthStatus e),
                           last_sync_time := now w, updated_at := now w\<rparr>)"
    and "storage_set_fails w \<noteq> None \<Longrightarrow>
           snd (updateAccount w store aid (failureUpdate w e)) = store"
proof -
  let ?accounts = "getAllAccounts w store"
  let ?account' = "account\<lparr>health_status := status (determineHealthStatus e),
                           last_sync_time := now w, updated_at := now w\<rparr>"
  note stored = getAccountById_stored[OF assms]
  obtain i where i: "findIndex (\<lambda>a. account_id a = aid) ?accounts = Some i"
    using assms findIndex_None[of "\<lambda>a. account_id a = aid" ?accounts]
    by (cases "findIndex (\<lambda>a. account_id a = aid) ?accounts") (auto simp: getAccountById_def)
  have at_i: "?accounts ! i = account" "i < length ?accounts"
    using findIndex_Some[OF i] assms by (simp_all add: getAccountById_def)
  have defaults: "map with_defaults ?accounts = ?accounts"
    by (simp add: getAllAccounts_def with_defaults_idem)
  have keep: "with_defaults ?account' = ?account'"
    using stored unfolding with_defaults_fixed_iff by simp
  have again: "getAllAccounts w (?accounts[i := ?account']) = ?accounts[i := ?account']"
    using stored defaults keep
    by (simp add: getAllAccounts_def[of w "?accounts[i := ?account']"] getStorageConfig_def
          map_update)
  show "map account_info (getAllAccounts w (snd (updateAccount w store aid (failureUpdate w e)))) =
           map account_info ?accounts"
    unfolding updateAccount_failureUpdate[OF assms] i
    using at_i again by (auto simp: map_update list_update_same_conv)
  show "getAccountById w (snd (updateAccount w store aid (failureUpdate w e))) aid = Some ?account'"
    if "storage_set_fails w = None"
    unfolding updateAccount_failureUpdate[OF assms] i
    using that again find_update_first[OF i, of ?account'] stored
    by (simp add: getAccountById_def)
  show "snd (updateAccount w store aid (failureUpdate w e)) = store" if "storage_set_fails w \<noteq> None"
    unfolding updateAccount_failureUpdate[OF assms] using that by auto
qed

lemma determineHealthStatus_classify: "status (determineHealthStatus e) = classify e"
  by (cases e rule: classify.cases) (simp_all split: option.splits)

lemma refreshAccount_try_throws:
  assumes "getAccountById w store aid = Some account"
    and "getAdapter reg (getAccountSiteType account) = Some adapter"
    and "buildCredentialsFromStoredAccount account = Inl e
         \<or> (buildCredentialsFromStoredAccount account = Inr c
             \<and> fst (fetchBalanceAndUsage w adapter c) = Inl e)"
  shows "fst (refreshAccount_try w reg store aid) = Inl e"
  using assms
  by (cases "fetchBalanceAndUsage w adapter c")
     (auto simp: refreshAccount_try_def split: sum.splits)

lemma refreshAccount_caught:
  "fst (refreshAccount_try w reg store aid) = Inl e \<Longrightarrow>
     fst (fst (refreshAccount w reg store aid)) = False
     \<and> snd (fst (refreshAccount w reg store aid)) = snd (refreshAccount_try w reg store aid)
     \<and> snd (refreshAccount w reg store aid) = snd (updateAccount w store aid (failureUpdate w e))"
  by (cases "refreshAccount_try w reg store aid")
     (auto simp: refreshAccount_def failureUpdate_def)

text \<open>
  C2: for a stored account whose adapter is found, when rebuilding the credentials throws or
  the fetch of balance and usage rejects, with the error \<open>e\<close>, \<open>refreshAccount\<close> answers
  \<open>false\<close> (it does not rethrow), and what it persists is the update holding only
  \<open>health_status\<close>, the classification of \<open>e\<close>, and \<open>last_sync_time\<close>. The stored
  \<open>account_info\<close> of every account, so its \<open>quota\<close>, is as before; when the storage
  takes the write the account read back is the previous one with \<open>health_status\<close> and
  \<open>last_sync_time\<close> replaced (and the \<open>updated_at\<close> that the storage service stamps on every
  write), and when it does not, the storage is as before. The classification: a \<open>TypeError\<close>
  whose message mentions \<open>fetch\<close> is \<open>error\<close>, an \<open>ApiError\<close> carrying a status code is
  \<open>warning\<close>, every other error is \<open>unknown\<close>.
\<close>

theorem refreshAccount_failure_frame:
  "(getAccountById w store aid = Some account
      \<and> getAdapter reg (getAccountSiteType account) = Some adapter
      \<and> (buildCredentialsFromStoredAccount account = Inl e
           \<or> (buildCredentialsFromStoredAccount account = Inr c
               \<and> fst (fetchBalanceAndUsage w adapter c) = Inl e))
    \<longrightarrow> fst (fst (refreshAccount w reg store aid)) = False
        \<and> snd (refreshAccount w reg store aid) = snd (updateAccount w store aid (failureUpdate w e))
        \<and> upd_account_info (failureUpdate w e) = None
        \<and> failureUpdate w e =
             no_update\<lparr>upd_health_status := Some (classify e), upd_last_sync_time := Some (now w)\<rparr>
        \<and> map account_info (getAllAccounts w (snd (refreshAccount w reg store aid))) =
             map account_info (getAllAccounts w store)
        \<and> (storage_set_fails w = None \<longrightarrow>
             getAccountById w (snd (refreshAccount w reg store aid)) aid =
               Some (account\<lparr>health_status := classify e, last_sync_time := now w,
                             updated_at := now w\<rparr>))
        \<and> (storage_set_fails w \<noteq> None \<longrightarrow> snd (refreshAccount w reg store aid) = store))
   \<and> status (determineHealthStatus e) = classify e
   \<and> (str_includes m ''fetch'' \<longrightarrow> classify (TypeError m) = error)
   \<and> (code \<noteq> 0 \<longrightarrow> classify (ApiError m (Some code) ep) = warning)
   \<and> ((\<forall>m'. e \<noteq> TypeError m') \<and> (\<forall>m' code' ep'. e \<noteq> ApiError m' (Some code') ep')
        \<longrightarrow> classify e = unknown)"
proof (intro conjI impI)
  assume h: "getAccountById w store aid = Some account
      \<and> getAdapter reg (getAccountSiteType account) = Some adapter
      \<and> (buildCredentialsFromStoredAccount account = Inl e
           \<or> (buildCredentialsFromStoredAccount account = Inr c
               \<and> fst (fetchBalanceAndUsage w adapter c) = Inl e))"
  then have stored: "getAccountById w store aid = Some account"
    by blast
  have thrown: "fst (refreshAccount_try w reg store aid) = Inl e"
    using h by (intro refreshAccount_try_throws[of w store aid account reg adapter e c]) blast+
  note caught = refreshAccount_caught[OF thrown]
  note frame = failed_refresh_store[OF stored, of e]
  show "fst (fst (refreshAccount w reg store aid)) = False"
    using caught by blast
  show "snd (refreshAccount w reg store aid) = snd (updateAccount w store aid (failureUpdate w e))"
    using caught by blast
  show "upd_account_info (failureUpdate w e) = None"
    by (simp add: failureUpdate_def no_update_def)
  show "failureUpdate w e =
      no_update\<lparr>upd_health_status := Some (classify e), upd_last_sync_time := Some (now w)\<rparr>"
    by (simp add: failureUpdate_def determineHealthStatus_classify)
  show "map account_info (getAllAccounts w (snd (refreshAccount w reg store aid))) =
      map account_info (getAllAccounts w store)"
    using caught frame(1) by simp
  show "getAccountById w (snd (refreshAccount w reg store aid)) aid =
      Some (account\<lparr>health_status := classify e, last_sync_time := now w, updated_at := now w\<rparr>)"
    if "storage_set_fails w = None"
    using caught frame(2)[OF that] by (simp add: determineHealthStatus_classify)
  show "snd (refreshAccount w reg store aid) = store" if "storage_set_fails w \<noteq> None"
    using caught frame(3)[OF that] by simp
next
  assume "(\<forall>m'. e \<noteq> TypeError m') \<and> (\<forall>m' code' ep'. e \<noteq> ApiError m' (Some code') ep')"
  then show "classify e = unknown"
    by (cases e rule: classify.cases) auto
qed (simp_all add: determineHealthStatus_classify)

text \<open>
  The theorem at the stored example account, refreshed through the built-in registry: with
  the site unreachable (the fetch rejects with a \<open>TypeError\<close> mentioning \<open>fetch\<close>: \<open>error\<close>)
  and with the site answering HTTP 500 (\<open>warning\<close>). The quota stays 1000000.
\<close>

theorem refreshAccount_failure_frame_witness:
  "fst (fst (refreshAccount offlineWorld (getInstance offlineWorld) [storedAccount] ''account_1'')) = False
   \<and> getAccountById offlineWorld
         (snd (refreshAccount offlineWorld (getInstance offlineWorld) [storedAccount] ''account_1''))
         ''account_1'' =
       Some (storedAccount\<lparr>health_status := error, last_sync_time := 1700000000000,
                            updated_at := 1700000000000\<rparr>)
   \<and> map (\<lambda>a. quota (account_info a))
         (getAllAccounts offlineWorld
            (snd (refreshAccount offlineWorld (getInstance offlineWorld) [storedAccount] ''account_1'')))
       = [1000000]
   \<and> getAccountById (httpStatusWorld 500)
         (snd (refreshAccount (httpStatusWorld 500) (getInstance (httpStatusWorld 500))
                 [storedAccount] ''account_1''))
         ''account_1'' =
       Some (storedAccount\<lparr>health_status := warning, last_sync_time := 1700000000000,
                            updated_at := 1700000000000\<rparr>)"
proof -
  let ?c = "\<lparr>siteUrl = ''https://api.test'', auth = OneApiToken (Num 7) ''tok'',
             adapterConfig = Some []\<rparr>"
  have stored: "getAccountById w [storedAccount] ''account_1'' = Some storedAccount"
    if "\<not> storage_get_fails w" for w
    using that
    by (simp add: getAccountById_def getAllAccounts_def getStorageConfig_def with_defaults_def
          or_else_def storedAccount_def)
  have kind: "getAccountSiteType storedAccount = ''one-api''"
    by (simp add: getAccountSiteType_def text_or_def storedAccount_def toLowerCase_def
          toLowerCase_char_def)
  have adapter: "getAdapter (getInstance w) ''one-api'' = Some (OneApiAdapter w)" for w
    by (simp add: getAdapter_def builtin_registry string_eval)
  have creds: "buildCredentialsFromStoredAccount storedAccount = Inr ?c"
    unfolding buildCredentialsFromStoredAccount_def kind
    by (simp add: text_or_def storedAccount_def Let_def)
  have env: "\<not> storage_get_fails offlineWorld" "storage_set_fails offlineWorld = None"
    "now offlineWorld = 1700000000000" "\<not> usage_settles_first offlineWorld"
    "http_user_self offlineWorld = (\<lambda>b u t. FetchRejects (TypeError ''Failed to fetch''))"
    "http_log_self offlineWorld = (\<lambda>b u t p s e. FetchRejects (TypeError ''Failed to fetch''))"
    by (simp_all add: offlineWorld_def)
  have env500: "\<not> storage_get_fails (httpStatusWorld 500)"
    "storage_set_fails (httpStatusWorld 500) = None"
    "now (httpStatusWorld 500) = 1700000000000" "\<not> usage_settles_first (httpStatusWorld 500)"
    "http_user_self (httpStatusWorld 500) =
       (\<lambda>b u t. Response 500 (InvalidJson (SyntaxError ''Unexpected token < in JSON'')))"
    "http_log_self (httpStatusWorld 500) =
       (\<lambda>b u t p s e. FetchRejects (TypeError ''Failed to fetch''))"
    by (simp_all add: httpStatusWorld_def offlineWorld_def)
  have usage: "fst (fetchTodayUsage w ''https://api.test'' (Num 7) ''tok'') =
      Inl (TypeError ''Failed to fetch'')"
    if "http_log_self w = (\<lambda>b u t p s e. FetchRejects (TypeError ''Failed to fetch''))" for w
  proof -
    have "fetchTodayUsage_loop w ''https://api.test'' (Num 7) ''tok'' 1 0 (0, 0, 0) =
        (Inl (TypeError ''Failed to fetch''),
         [GetLogSelf ''https://api.test'' (Num 7) ''tok'' 1 (range_start (today w))
            (range_end (today w))])"
      by (subst fetchTodayUsage_loop.simps)
         (simp add: that apiRequest_def REQUEST_CONFIG_MAX_PAGES_def)
    then show ?thesis
      unfolding fetchTodayUsage_def by simp
  qed
  have offline: "fst (fetchBalanceAndUsage offlineWorld (OneApiAdapter offlineWorld) ?c) =
      Inl (TypeError ''Failed to fetch'')"
    using usage[of offlineWorld]
    by (cases "fetchTodayUsage offlineWorld ''https://api.test'' (Num 7) ''tok''")
       (simp add: fetchBalanceAndUsage_def promise_all_def OneApiAdapter_def
          OneApi_getAccountBalance_def OneApi_getUsageStats_def fetchAccountQuota_def
          apiRequest_def env)
  have http500: "fst (fetchBalanceAndUsage (httpStatusWorld 500)
                        (OneApiAdapter (httpStatusWorld 500)) ?c) =
      Inl (ApiError (zh_request_failed @ '': '' @ show_nat 500) (Some 500) ''/api/user/self'')"
    using usage[of "httpStatusWorld 500"]
    by (cases "fetchTodayUsage (httpStatusWorld 500) ''https://api.test'' (Num 7) ''tok''")
       (simp add: fetchBalanceAndUsage_def promise_all_def OneApiAdapter_def
          OneApi_getAccountBalance_def OneApi_getUsageStats_def fetchAccountQuota_def
          apiRequest_def response_ok_def env500)
  have info: "map (\<lambda>a. quota (account_info a)) (getAllAccounts offlineWorld [storedAccount]) =
      [1000000]"
    by (simp add: getAllAccounts_def getStorageConfig_def with_defaults_def env storedAccount_def)
  have quotas: "map (\<lambda>a. quota (account_info a)) xs = map (\<lambda>a. quota (account_info a)) ys"
    if "map account_info xs = map account_info ys" for xs ys :: "SiteAccount list"
  proof -
    have "map quota (map account_info xs) = map quota (map account_info ys)"
      using that by simp
    then show ?thesis
      by (simp add: comp_def)
  qed
  have classes: "classify (TypeError ''Failed to fetch'') = error"
    "classify (ApiError (zh_request_failed @ '': '' @ show_nat 500) (Some 500) ''/api/user/self'')
       = warning"
    by simp_all
  have h1: "getAccountById offlineWorld [storedAccount] ''account_1'' = Some storedAccount
      \<and> getAdapter (getInstance offlineWorld) (getAccountSiteType storedAccount) =
          Some (OneApiAdapter offlineWorld)
      \<and> (buildCredentialsFromStoredAccount storedAccount = Inl (TypeError ''Failed to fetch'')
           \<or> (buildCredentialsFromStoredAccount storedAccount = Inr ?c
               \<and> fst (fetchBalanceAndUsage offlineWorld (OneApiAdapter offlineWorld) ?c) =
                   Inl (TypeError ''Failed to fetch'')))"
    using stored[of offlineWorld] adapter creds offline by (simp add: kind env)
  have h2: "getAccountById (httpStatusWorld 500) [storedAccount] ''account_1'' = Some storedAccount
      \<and> getAdapter (getInstance (httpStatusWorld 500)) (getAccountSiteType storedAccount) =
          Some (OneApiAdapter (httpStatusWorld 500))
      \<and> (buildCredentialsFromStoredAccount storedAccount =
             Inl (ApiError (zh_request_failed @ '': '' @ show_nat 500) (Some 500) ''/api/user/self'')
           \<or> (buildCredentialsFromStoredAccount storedAccount = Inr ?c
               \<and> fst (fetchBalanceAndUsage (httpStatusWorld 500)
                         (OneApiAdapter (httpStatusWorld 500)) ?c) =
                   Inl (ApiError (zh_request_failed @ '': '' @ show_nat 500) (Some 500)
                          ''/api/user/self'')))"
    using stored[of "httpStatusWorld 500"] adapter creds http500 by (simp add: kind env500)
  note r1 = refreshAccount_failure_frame[of offlineWorld "[storedAccount]" "''account_1''"
        storedAccount "getInstance offlineWorld" "OneApiAdapter offlineWorld"
        "TypeError ''Failed to fetch''" ?c "''Failed to fetch''" 500 "[]", THEN conjunct1, THEN mp, OF h1]
  note r2 = refreshAccount_failure_frame[of "httpStatusWorld 500" "[storedAccount]" "''account_1''"
        storedAccount "getInstance (httpStatusWorld 500)" "OneApiAdapter (httpStatusWorld 500)"
        "ApiError (zh_request_failed @ '': '' @ show_nat 500) (Some 500) ''/api/user/self''" ?c
        "''Failed to fetch''" 500 "[]", THEN conjunct1, THEN mp, OF h2]
  have a: "fst (fst (refreshAccount offlineWorld (getInstance offlineWorld) [storedAccount]
                       ''account_1'')) = False"
    using r1 by blast
  have b: "getAccountById offlineWorld
         (snd (refreshAccount offlineWorld (getInstance offlineWorld) [storedAccount] ''account_1''))
         ''account_1'' =
       Some (storedAccount\<lparr>health_status := error, last_sync_time := 1700000000000,
                            updated_at := 1700000000000\<rparr>)"
    using r1 env(2,3) unfolding classes by metis
  have c: "map (\<lambda>a. quota (account_info a))
         (getAllAccounts offlineWorld
            (snd (refreshAccount offlineWorld (getInstance offlineWorld) [storedAccount] ''account_1'')))
       = [1000000]"
    using r1 quotas info by metis
  have d: "getAccountById (httpStatusWorld 500)
         (snd (refreshAccount (httpStatusWorld 500) (getInstance (httpStatusWorld 500))
                 [storedAccount] ''account_1''))
         ''account_1'' =
       Some (storedAccount\<lparr>health_status := warning, last_sync_time := 1700000000000,
                            updated_at := 1700000000000\<rparr>)"
    using r2 env500(2,3) unfolding classes by metis
  show ?thesis
    using a b c d by blast
qed

section \<open>Usage pagination (C3)\<close>















section \<open>Site-type detection (C4)\<close>

lemma update_new_key: "map_of m k = None \<Longrightarrow> AList.update k v m = m @ [(k, v)]"
  by (induction m) (auto split: if_splits)

lemma registerAdapter_appends:
  "fst (registerAdapter reg a) = None \<Longrightarrow>
     getAllAdapters (snd (registerAdapter reg a)) = getAllAdapters reg @ [a]"
  by (auto simp: registerAdapter_def getAllAdapters_def has_def Let_def update_new_key
           split: option.splits prod.splits if_splits)

text \<open>
  C4: \<open>detectSiteType\<close> resolves, for every registry and URL, to the id of the first adapter,
  in the order of \<open>getAllAdapters\<close>, that has \<open>getSiteStatus\<close> and whose probe of the
  normalised URL resolves to a status, and to \<open>null\<close> when there is none; it never rejects.
  An adapter without \<open>getSiteStatus\<close>, a probe that rejects and a probe that resolves to
  \<open>null\<close> are no match. The requests issued are those of the adapters probed, up to the
  first match. The order of \<open>getAllAdapters\<close> is the order of registration: a successful
  registration puts the adapter last.
\<close>

theorem detectSiteType_first_match:
  "detectSiteType reg url =
     (Inr (map_option (\<lambda>a. adapterId (metadata a))
            (List.find (probeMatches (normalizeSiteUrl url)) (getAllAdapters reg))),
      concat (map (probeRequests (normalizeSiteUrl url))
                (probed (normalizeSiteUrl url) (getAllAdapters reg))))
   \<and> (fst (registerAdapter reg a) = None \<longrightarrow>
        getAllAdapters (snd (registerAdapter reg a)) = getAllAdapters reg @ [a])"
  by (simp add: detectSiteType_def detectLoop_result registerAdapter_appends)

text \<open>
  Four adapters registered in turn: the first probe rejects, the second adapter has no
  \<open>getSiteStatus\<close>, the third and the fourth probes resolve to a status. The third wins,
  and the fourth is not probed.
\<close>

theorem detectSiteType_first_match_witness:
  "detectSiteType fourAdapters '' https://x.test// '' =
     (Inr (Some ''c''), [GetStatus ''https://x.test'', DirectFetch ''https://x.test''])
   \<and> fst (registerAdapter emptyRegistry (bareAdapter ''b'' [''b''])) = None
   \<and> getAllAdapters (snd (registerAdapter emptyRegistry (bareAdapter ''b'' [''b'']))) =
       [bareAdapter ''b'' [''b'']]"
proof -
  have ok: "fst (registerAdapter emptyRegistry (bareAdapter ''b'' [''b''])) = None"
    by (simp add: registry_eval)
  have url: "normalizeSiteUrl '' https://x.test// '' = ''https://x.test''"
    by (simp add: normalizeSiteUrl_def registry_eval)
  have all: "getAllAdapters fourAdapters =
      [probingAdapter ''a'' (\<lambda>u. (Inl (TypeError ''Failed to fetch''), [GetStatus u])),
       bareAdapter ''b'' [''b''],
       probingAdapter ''c'' (\<lambda>u. (Inr (Some (Detected u)), [DirectFetch u])),
       probingAdapter ''d'' (\<lambda>u. (Inr (Some (Detected u)), [GetStatus u]))]"
    by (simp add: fourAdapters_def getAllAdapters_def registry_eval)
  have none: "getAllAdapters emptyRegistry = []"
    by (simp add: getAllAdapters_def emptyRegistry_def)
  have first: "detectSiteType fourAdapters '' https://x.test// '' =
      (Inr (Some ''c''), [GetStatus ''https://x.test'', DirectFetch ''https://x.test''])"
    using detectSiteType_first_match[of fourAdapters "'' https://x.test// ''" "bareAdapter ''b'' [''b'']"]
    by (simp add: url all probeMatches_def probeRequests_def probed_def probingAdapter_def
          bareAdapter_def)
  have last: "getAllAdapters (snd (registerAdapter emptyRegistry (bareAdapter ''b'' [''b'']))) =
      [bareAdapter ''b'' [''b'']]"
    using detectSiteType_first_match[of emptyRegistry "[]" "bareAdapter ''b'' [''b'']"] ok
    by (simp add: none)
  show ?thesis
    using first last ok by simp
qed

section \<open>The OneApi adapter's guard on the kind of credentials (C5)\<close>

lemma str_includes_prefix: "prefix u t \<Longrightarrow> str_includes t u"
  by (cases t) auto

lemma str_includes_middle: "str_includes (s @ u @ r) u"
  by (induction s) (auto intro: str_includes_prefix)

lemma fetchAccountQuota_requests:
  "snd (fetchAccountQuota w b u t) = [GetUserSelf b u t]"
  by (simp add: fetchAccountQuota_def split: sum.splits)

lemma fetchTodayUsage_requests_nonempty: "snd (fetchTodayUsage w b u t) \<noteq> []"
proof -
  have "snd (fetchTodayUsage_loop w b u t 1 0 (0, 0, 0)) \<noteq> []"
    by (subst fetchTodayUsage_loop.simps)
       (simp add: REQUEST_CONFIG_MAX_PAGES_def Let_def split: sum.splits prod.splits)
  then show ?thesis
    by (cases "fetchTodayUsage_loop w b u t 1 0 (0, 0, 0)")
       (auto simp: fetchTodayUsage_def split: sum.splits)
qed

lemma kind_token: "(kind a = ''one-api-token'') = (\<exists>u t. a = OneApiToken u t)"
  by (cases a) auto

text \<open>
  C5: with credentials of a kind other than \<open>one-api-token\<close>, \<open>getAccountBalance\<close> and
  \<open>getUsageStats\<close> of the OneApi adapter reject with no request issued, \<open>validateConnection\<close>
  resolves to \<open>ok = false\<close> with no request issued, and the message of all three names
  \<open>one-api-token\<close>. With credentials of the kind \<open>one-api-token\<close> each of the three goes on to
  the network (its requests are not empty), and what \<open>getAccountBalance\<close> or
  \<open>getUsageStats\<close> then rejects with is what the fetch rejects with.
\<close>

theorem OneApi_kind_guard:
  "(kind (auth c) \<noteq> ''one-api-token'' \<longrightarrow>
      OneApi_getAccountBalance w c = (Inl (Error OneApi_kind_mismatch), [])
      \<and> OneApi_getUsageStats w c r = (Inl (Error OneApi_kind_mismatch), [])
      \<and> OneApi_validateConnection w c =
          (Inr \<lparr>ok = False, message = Some OneApi_kind_mismatch, details = None\<rparr>, []))
   \<and> str_includes OneApi_kind_mismatch ''one-api-token''
   \<and> (\<forall>u t. auth c = OneApiToken u t \<longrightarrow>
        snd (OneApi_getAccountBalance w c) = [GetUserSelf (siteUrl c) u t]
        \<and> snd (OneApi_validateConnection w c) = [GetUserSelf (siteUrl c) u t]
        \<and> snd (OneApi_getUsageStats w c r) \<noteq> []
        \<and> (\<forall>e. fst (OneApi_getAccountBalance w c) = Inl e \<longrightarrow>
                 fst (fetchAccountQuota w (siteUrl c) u t) = Inl e)
        \<and> (\<forall>e. fst (OneApi_getUsageStats w c r) = Inl e \<longrightarrow>
                 fst (fetchTodayUsage w (siteUrl c) u t) = Inl e)
        \<and> (\<forall>e. fst (OneApi_validateConnection w c) \<noteq> Inl e))"
proof (intro conjI impI allI)
  show "str_includes OneApi_kind_mismatch ''one-api-token''"
  proof -
    have "OneApi_kind_mismatch =
        (''one-api '' @ zh_adapter_requires @ '' '') @ ''one-api-token'' @ ('' '' @ zh_auth)"
      by (simp add: OneApi_kind_mismatch_def)
    then show ?thesis
      using str_includes_middle by metis
  qed
next
  fix u t assume "auth c = OneApiToken u t"
  then show "snd (OneApi_getUsageStats w c r) \<noteq> []"
    using fetchTodayUsage_requests_nonempty[of w "siteUrl c" u t]
    by (auto simp: OneApi_getUsageStats_def split: prod.splits sum.splits)
next
  fix u t assume "auth c = OneApiToken u t"
  then show "snd (OneApi_getAccountBalance w c) = [GetUserSelf (siteUrl c) u t]"
    using fetchAccountQuota_requests[of w "siteUrl c" u t]
    by (auto simp: OneApi_getAccountBalance_def split: prod.splits sum.splits)
next
  fix u t assume "auth c = OneApiToken u t"
  then show "snd (OneApi_validateConnection w c) = [GetUserSelf (siteUrl c) u t]"
    using fetchAccountQuota_requests[of w "siteUrl c" u t]
    by (auto simp: OneApi_validateConnection_def validateAccountConnection_def
             split: prod.splits sum.splits)
qed (auto simp: OneApi_getAccountBalance_def OneApi_getUsageStats_def OneApi_validateConnection_def
           validateAccountConnection_def split: prod.splits sum.splits SiteAuth.splits)

text \<open>
  The theorem at cookie credentials (rejected, no request) and at token credentials on an
  unreachable site (the request is issued and its rejection is the fetch's).
\<close>

theorem OneApi_kind_guard_witness:
  "OneApi_getAccountBalance offlineWorld cookieCredentials = (Inl (Error OneApi_kind_mismatch), [])
   \<and> OneApi_getUsageStats offlineWorld cookieCredentials (today offlineWorld) =
       (Inl (Error OneApi_kind_mismatch), [])
   \<and> OneApi_validateConnection offlineWorld cookieCredentials =
       (Inr \<lparr>ok = False, message = Some OneApi_kind_mismatch, details = None\<rparr>, [])
   \<and> snd (OneApi_getAccountBalance offlineWorld tokenCredentials) =
       [GetUserSelf ''https://api.test'' (Num 7) ''tok'']
   \<and> fst (OneApi_getAccountBalance offlineWorld tokenCredentials) =
       Inl (TypeError ''Failed to fetch'')"
proof -
  have fetch: "fst (fetchAccountQuota offlineWorld ''https://api.test'' (Num 7) ''tok'') =
      Inl (TypeError ''Failed to fetch'')"
    by (simp add: fetchAccountQuota_def apiRequest_def offlineWorld_def)
  have bal: "fst (OneApi_getAccountBalance offlineWorld tokenCredentials) =
      Inl (TypeError ''Failed to fetch'')"
    by (simp add: OneApi_getAccountBalance_def tokenCredentials_def fetchAccountQuota_def
          apiRequest_def offlineWorld_def)
  show ?thesis
    using OneApi_kind_guard[of cookieCredentials offlineWorld "today offlineWorld"]
      OneApi_kind_guard[of tokenCredentials offlineWorld "today offlineWorld"] bal
    by (simp add: cookieCredentials_def tokenCredentials_def)
qed

section \<open>Balance conversion (C6)\<close>






section \<open>The raw balance of a Cubence overview (C7)\<close>



section \<open>Auto-detection through the manager (C8)\<close>



section \<open>An API key given for a OneApi site (C9)\<close>








section \<open>The exchange rate of the form (C10)\<close>

















end
